theory Spec2Isabelle
  imports Main "HOL-Library.Word"
begin

section \<open>JavaScript values at the boundary\<close>

text \<open>
  Every field read from a parsed queue envelope, a request body, a platform response or
  the process environment is either a string or \<open>undefined\<close>. Such a value is a
  \<open>string option\<close>, \<open>None\<close> being \<open>undefined\<close>. Opaque objects (message options,
  dialogs) are carried as their JSON text; the relay only passes them on.
\<close>

type_synonym jsstr = "string option"

definition show_js :: "jsstr \<Rightarrow> string" where
  \<comment> \<open>Interpolation in a template literal, and coercion to a property key.\<close>
  "show_js v = (case v of None \<Rightarrow> ''undefined'' | Some x \<Rightarrow> x)"

definition squote :: "string \<Rightarrow> string" where
  "squote x = CHR 0x27 # x @ [CHR 0x27]"

text \<open>
  A thrown JavaScript error: its class name, its \<open>message\<close>, and what
  \<open>get(get(error, 'data', {}), 'error', 'unknown')\<close> finds (\<open>None\<close> when the path is
  undefined).
\<close>

record js_error =
  err_name :: string
  err_message :: string
  err_data_error :: jsstr

definition mkError :: "string \<Rightarrow> js_error" where
  "mkError msg = \<lparr>err_name = ''Error'', err_message = msg, err_data_error = None\<rparr>"

definition mkTypeError :: "string \<Rightarrow> js_error" where
  "mkTypeError msg = \<lparr>err_name = ''TypeError'', err_message = msg, err_data_error = None\<rparr>"

section \<open>Data model\<close>

text \<open>The outbound queue envelope, as \<open>JSON.parse\<close> delivers it.\<close>

record envelope =
  m_type :: jsstr
  m_channel :: jsstr
  m_team :: jsstr
  m_uid :: jsstr
  m_ts :: jsstr
  m_text :: jsstr
  m_opts :: jsstr
  m_triggerId :: jsstr
  m_dialog :: jsstr
  m_messageDelay :: jsstr

text \<open>
  A message delivered by the out-queue: its delivery tag and the outcome of
  \<open>JSON.parse(message.content.toString())\<close>, which either throws or yields the envelope.
\<close>

record qmessage =
  delivery_tag :: nat
  parsed_content :: "js_error + envelope"

text \<open>A row of the \<open>teams\<close> table.\<close>

record team_row =
  bot_token :: string
  app_token :: string
  bot_id :: string
  autostart :: bool

text \<open>
  The \<open>Slack\<close> object built by \<open>new Slack(botToken, appToken, botId, 'chatterbox')\<close>;
  \<open>autoStart\<close> is undefined until \<open>getSlack\<close> assigns it.
\<close>

record session =
  botToken :: string
  appToken :: string
  botId :: string
  autoStart :: "bool option"

text \<open>
  What \<open>this.slackClients[teamId]\<close> evaluates to when it is not undefined.
  \<open>slackClients\<close> is a plain object literal, so besides the objects stored in it the
  lookup finds the members it inherits from \<open>Object.prototype\<close>: for the key
  \<open>constructor\<close> it yields the function \<open>Object\<close>, and so on.
\<close>

datatype slack = Client session | Inherited string

definition Object_prototype :: "string list" where
  "Object_prototype =
     [''constructor'', ''__defineGetter__'', ''__defineSetter__'', ''hasOwnProperty'',
      ''__lookupGetter__'', ''__lookupSetter__'', ''isPrototypeOf'', ''propertyIsEnumerable'',
      ''toString'', ''valueOf'', ''__proto__'', ''toLocaleString'']"

text \<open>The methods of the \<open>Slack\<close> object that the relays call, with their arguments.\<close>

datatype pcall =
    Connect
  | PostMessage jsstr jsstr jsstr
  | UpdateMessage jsstr jsstr jsstr jsstr
  | DeleteMessage jsstr jsstr
  | Dm jsstr jsstr jsstr
  | Dialog jsstr jsstr
  | GetConversationMembers jsstr
  | GetConversationInfo jsstr
  | UserInfo jsstr
  | CreatePrivateChannel string
  | InvitePrivateChannel jsstr jsstr

definition method_name :: "pcall \<Rightarrow> string" where
  "method_name c =
     (case c of
        Connect \<Rightarrow> ''connect''
      | PostMessage _ _ _ \<Rightarrow> ''postMessage''
      | UpdateMessage _ _ _ _ \<Rightarrow> ''updateMessage''
      | DeleteMessage _ _ \<Rightarrow> ''deleteMessage''
      | Dm _ _ _ \<Rightarrow> ''dm''
      | Dialog _ _ \<Rightarrow> ''dialog''
      | GetConversationMembers _ \<Rightarrow> ''getConversationMembers''
      | GetConversationInfo _ \<Rightarrow> ''getConversationInfo''
      | UserInfo _ \<Rightarrow> ''userInfo''
      | CreatePrivateChannel _ \<Rightarrow> ''createPrivateChannel''
      | InvitePrivateChannel _ _ \<Rightarrow> ''invitePrivateChannel'')"

text \<open>
  The \<open>user\<close> member of a \<open>userInfo\<close> response: \<open>real_name\<close>, and the \<open>email\<close> of
  its \<open>profile\<close> (\<open>None\<close> when there is no \<open>profile\<close>).
\<close>

record user =
  u_real_name :: jsstr
  u_profile :: "jsstr option"

text \<open>
  The object a platform call resolves to; the relays read \<open>ok\<close>, \<open>error\<close>, \<open>ts\<close>,
  \<open>name\<close>, \<open>group.id\<close> and \<open>user\<close> from it. \<open>r_group\<close> is the \<open>id\<close> of the
  \<open>group\<close> member, \<open>None\<close> when the response has no \<open>group\<close>; \<open>r_user\<close> is \<open>None\<close>
  when it has no \<open>user\<close>.
\<close>

record response =
  r_ok :: bool
  r_error :: jsstr
  r_ts :: jsstr
  r_name :: jsstr
  r_group :: "jsstr option"
  r_user :: "user option"

text \<open>The body of a slash-command request.\<close>

record slash_body =
  b_token :: jsstr
  b_team_id :: jsstr
  b_channel_id :: jsstr
  b_channel_name :: jsstr
  b_user_id :: jsstr
  b_command :: jsstr

text \<open>The inbound envelope \<open>{type, payload}\<close> written to the in-queue.\<close>

datatype payload =
    TimestampPayload jsstr jsstr jsstr
  | NewGamePayload jsstr jsstr jsstr jsstr jsstr
  | BodyPayload slash_body

record inbound =
  in_type :: string
  in_payload :: payload

datatype level = Debug | Info | Warn | Error

text \<open>
  Everything the process does to the outside, in the order it does it. A platform call is
  recorded with its answer, a new \<open>Slack\<close> object with the key it is stored under, a
  call of \<open>crypto.randomBytes\<close> with the bytes it returned.
\<close>

datatype event =
    Log level string
  | TeamQuery jsstr
  | CharacterQuery jsstr jsstr
  | NewSlack string session
  | Call session pcall "js_error + response"
  | CaptureException js_error "envelope option"
  | AssertQueue string
  | SendToQueue string inbound
  | SetTimeout qmessage int
  | Ack qmessage
  | ResSend string
  | RandomBytes "8 word list"

text \<open>
  The collaborators: the process environment, the database, the chat platform and the
  random source. Each answer may depend on everything that happened before, so each takes
  the trace of events so far.
\<close>

record env =
  env_MODE :: jsstr
  env_VERIFICATION_TOKEN :: jsstr
  env_CNS_API_TOKEN :: jsstr
  env_QUEUE_SUFFIX :: jsstr
  teams_table :: "event list \<Rightarrow> jsstr \<Rightarrow> team_row list"
  characters_table :: "event list \<Rightarrow> jsstr \<Rightarrow> jsstr \<Rightarrow> jsstr list"
  platform :: "event list \<Rightarrow> session \<Rightarrow> pcall \<Rightarrow> js_error + response"
  entropy :: "event list \<Rightarrow> nat \<Rightarrow> 8 word"

text \<open>
  The mutable state of the process: \<open>Chatterbox.slackClients\<close>, \<open>SlashListener.ackDelay\<close>,
  the callbacks handed to \<open>setTimeout\<close> that have not fired yet, and the trace.
\<close>

record world =
  slackClients :: "string \<rightharpoonup> session"
  ackDelay :: int
  timers :: "(qmessage \<times> int) list"
  trace :: "event list"

definition emit :: "event \<Rightarrow> world \<Rightarrow> world" where
  "emit ev s = s\<lparr>trace := trace s @ [ev]\<rparr>"

text \<open>
  \<open>this.slackClients[teamId]\<close>: an own entry first, then an inherited member, else
  undefined.
\<close>

definition cached :: "world \<Rightarrow> string \<Rightarrow> slack option" where
  "cached s k =
     (case slackClients s k of
        Some client \<Rightarrow> Some (Client client)
      | None \<Rightarrow> if k \<in> set Object_prototype then Some (Inherited k) else None)"

definition ERROR_NOT_IN_CHANNEL :: string where
  "ERROR_NOT_IN_CHANNEL = ''channel_not_found''"

definition ERROR_MESSAGE_NOT_FOUND :: string where
  "ERROR_MESSAGE_NOT_FOUND = ''message_not_found''"

definition COMMAND_CHATANDSLASH :: string where
  "COMMAND_CHATANDSLASH = ''/chatandslash''"

definition CHANNEL_PRIVATEGROUP :: string where
  "CHANNEL_PRIVATEGROUP = ''privategroup''"

definition ERROR_CHANNEL_EXISTS :: string where
  "ERROR_CHANNEL_EXISTS = ''name_taken''"

section \<open>Chatterbox\<close>

text \<open>The state after both constructors have run.\<close>

definition constructor :: world where
  "constructor = \<lparr>slackClients = Map.empty, ackDelay = 0, timers = [], trace = []\<rparr>"

definition reportError :: "env \<Rightarrow> js_error \<Rightarrow> envelope option \<Rightarrow> world \<Rightarrow> world" where
  "reportError E error info s =
     (if Some ''dev'' = env_MODE E
      then emit (Log Info ''Error data'')
             (emit (Log Info ''Command information'')
               (emit (Log Info ''Reporting error...'') s))
      else emit (CaptureException error info) s)"

text \<open>
  \<open>getTeamInfo\<close>: the query yields the rows for the team; \<open>rows[0].bot_token\<close> on an
  empty result reads a property of \<open>undefined\<close>, which throws a \<open>TypeError\<close>.
\<close>

definition getTeamInfo ::
  "env \<Rightarrow> jsstr \<Rightarrow> world \<Rightarrow> (js_error + string \<times> string \<times> string \<times> bool) \<times> world" where
  "getTeamInfo E teamId s =
     (let s1 = emit (Log Info (''Loading team '' @ squote (show_js teamId) @ ''.'')) s;
          rows = teams_table E (trace s1) teamId;
          s2 = emit (TeamQuery teamId) s1
      in case rows of
           [] \<Rightarrow> (Inl (mkTypeError ''Cannot read property 'bot_token' of undefined''), s2)
         | row # _ \<Rightarrow> (Inr (bot_token row, app_token row, bot_id row, autostart row), s2))"

text \<open>
  A method call on what \<open>getSlack\<close> returned. On a \<open>Slack\<close> object the platform
  answers, and call and answer are recorded. An inherited member of \<open>Object.prototype\<close>
  has none of these methods, so the call throws before anything reaches the platform.
\<close>

definition invoke :: "env \<Rightarrow> slack \<Rightarrow> pcall \<Rightarrow> world \<Rightarrow> (js_error + response) \<times> world" where
  "invoke E slack c s =
     (case slack of
        Client client \<Rightarrow>
          (let r = platform E (trace s) client c in (r, emit (Call client c r) s))
      | Inherited k \<Rightarrow>
          (Inl (mkTypeError (''slack.'' @ method_name c @ '' is not a function'')), s))"

text \<open>
  \<open>getSlack\<close>: whatever the lookup finds is returned as it is. Otherwise the new object
  is stored in \<open>slackClients\<close> before \<open>connect\<close> is awaited, and \<open>autoStart\<close> is
  assigned to the stored object only after \<open>connect\<close> resolved.
\<close>

definition getSlack :: "env \<Rightarrow> jsstr \<Rightarrow> world \<Rightarrow> (js_error + slack) \<times> world" where
  "getSlack E teamId s =
     (case cached s (show_js teamId) of
        Some found \<Rightarrow> (Inr found, s)
      | None \<Rightarrow>
          (case getTeamInfo E teamId s of
             (Inl e, s1) \<Rightarrow> (Inl e, s1)
           | (Inr (bt, at, bid, as), s1) \<Rightarrow>
               (let client = \<lparr>botToken = bt, appToken = at, botId = bid, autoStart = None\<rparr>;
                    s2 = emit (NewSlack (show_js teamId) client)
                           (s1\<lparr>slackClients := (slackClients s1)(show_js teamId \<mapsto> client)\<rparr>)
                in case invoke E (Client client) Connect s2 of
                     (Inl e, s3) \<Rightarrow> (Inl e, s3)
                   | (Inr _, s3) \<Rightarrow>
                       (let client' = client\<lparr>autoStart := Some as\<rparr>
                        in (Inr (Client client'),
                            s3\<lparr>slackClients := (slackClients s3)(show_js teamId \<mapsto> client')\<rparr>)))))"

section \<open>SlackListener: the queue side\<close>

definition inQueueName :: "env \<Rightarrow> string" where
  "inQueueName E = ''in_queue-'' @ show_js (env_QUEUE_SUFFIX E)"

definition enqueue :: "env \<Rightarrow> inbound \<Rightarrow> world \<Rightarrow> world" where
  "enqueue E msg s = emit (SendToQueue (inQueueName E) msg) (emit (AssertQueue (inQueueName E)) s)"

section \<open>SlashListener: the outbound relay\<close>

definition INVITE_BEFORE_ACTIONS :: string where
  "INVITE_BEFORE_ACTIONS = ''The Chat & Slash bot needs to be invited to your channel before you can play.  Type `/invite @chatandslash` before attempting any in-game actions.''"

definition say ::
  "env \<Rightarrow> jsstr \<Rightarrow> jsstr \<Rightarrow> jsstr \<Rightarrow> jsstr \<Rightarrow> jsstr \<Rightarrow> world \<Rightarrow> (js_error + response) \<times> world" where
  "say E channel team text options messageDelay s =
     (case getSlack E team s of
        (Inl e, s1) \<Rightarrow> (Inl e, s1)
      | (Inr slack, s1) \<Rightarrow> invoke E slack (PostMessage channel text options) s1)"

definition dialog ::
  "env \<Rightarrow> jsstr \<Rightarrow> jsstr \<Rightarrow> jsstr \<Rightarrow> world \<Rightarrow> (js_error + response) \<times> world" where
  "dialog E team trigger_id dlg s =
     (case getSlack E team s of
        (Inl e, s1) \<Rightarrow> (Inl e, s1)
      | (Inr slack, s1) \<Rightarrow> invoke E slack (Dialog trigger_id dlg) s1)"

definition update ::
  "env \<Rightarrow> jsstr \<Rightarrow> jsstr \<Rightarrow> jsstr \<Rightarrow> jsstr \<Rightarrow> jsstr \<Rightarrow> world \<Rightarrow> (js_error + response) \<times> world" where
  "update E ts channel team text options s =
     (case getSlack E team s of
        (Inl e, s1) \<Rightarrow> (Inl e, s1)
      | (Inr slack, s1) \<Rightarrow> invoke E slack (UpdateMessage ts channel text options) s1)"

definition delete ::
  "env \<Rightarrow> jsstr \<Rightarrow> jsstr \<Rightarrow> jsstr \<Rightarrow> world \<Rightarrow> (js_error + response) \<times> world" where
  "delete E ts channel team s =
     (case getSlack E team s of
        (Inl e, s1) \<Rightarrow> (Inl e, s1)
      | (Inr slack, s1) \<Rightarrow> invoke E slack (DeleteMessage ts channel) s1)"

definition dm ::
  "env \<Rightarrow> jsstr \<Rightarrow> jsstr \<Rightarrow> jsstr \<Rightarrow> jsstr \<Rightarrow> world \<Rightarrow> (js_error + response) \<times> world" where
  "dm E uid team text options s =
     (case getSlack E team s of
        (Inl e, s1) \<Rightarrow> (Inl e, s1)
      | (Inr slack, s1) \<Rightarrow> invoke E slack (Dm uid text options) s1)"

text \<open>An awaited call whose value is not used.\<close>

definition discard :: "(js_error + 'a) \<times> world \<Rightarrow> (js_error + unit) \<times> world" where
  "discard r = (case r of (Inl e, s) \<Rightarrow> (Inl e, s) | (Inr _, s) \<Rightarrow> (Inr (), s))"

definition error_type :: "js_error \<Rightarrow> string" where
  \<comment> \<open>\<open>get(get(error, 'data', {}), 'error', 'unknown')\<close>\<close>
  "error_type error = (case err_data_error error of None \<Rightarrow> ''unknown'' | Some c \<Rightarrow> c)"

text \<open>The \<open>try\<close> block of \<open>processQueueMessage\<close>: the dispatch on \<open>message.type\<close>.\<close>

definition dispatch :: "env \<Rightarrow> envelope \<Rightarrow> world \<Rightarrow> (js_error + unit) \<times> world" where
  "dispatch E message s =
     (if Some ''say'' = m_type message then
        (case say E (m_channel message) (m_team message) (m_text message)
                (m_opts message) (m_messageDelay message) s of
           (Inl e, s1) \<Rightarrow> (Inl e, s1)
         | (Inr response, s1) \<Rightarrow>
             (Inr (),
              enqueue E
                \<lparr>in_type = ''add_timestamp'',
                 in_payload =
                   TimestampPayload (r_ts response) (m_channel message) (m_team message)\<rparr>
                s1))
      else if Some ''update'' = m_type message then
        discard (update E (m_ts message) (m_channel message) (m_team message)
                   (m_text message) (m_opts message) s)
      else if Some ''delete'' = m_type message then
        discard (delete E (m_ts message) (m_channel message) (m_team message) s)
      else if Some ''dm'' = m_type message then
        discard (dm E (m_uid message) (m_team message) (m_text message) (m_opts message) s)
      else if Some ''dialog'' = m_type message then
        discard (dialog E (m_team message) (m_triggerId message) (m_dialog message) s)
      else
        (Inl (mkTypeError
                (''Invalid message type: '' @ squote (show_js (m_type message)) @ ''.'')),
         emit (Log Error ''Could not identify message type.'') s))"

text \<open>
  \<open>processQueueMessage\<close>: the check of \<open>team\<close>, then the \<open>try\<close> block with its
  \<open>catch\<close>, which swallows an error whose \<open>data.error\<close> is \<open>message_not_found\<close> and
  rethrows any other.
\<close>

definition processQueueMessage :: "env \<Rightarrow> envelope \<Rightarrow> world \<Rightarrow> (js_error + unit) \<times> world" where
  "processQueueMessage E message s =
     (if m_team message = None
      then (Inl (mkError ''No team id defined.''), emit (Log Error ''No team id defined.'') s)
      else
        (case dispatch E message s of
           (Inr u, s1) \<Rightarrow> (Inr u, s1)
         | (Inl error, s1) \<Rightarrow>
             (if ERROR_MESSAGE_NOT_FOUND = error_type error
              then (Inr (), emit (Log Warn ''Attempting to delete invalid timestamp.'') s1)
              else (Inl error, s1))))"

definition ackMessage :: "qmessage \<Rightarrow> world \<Rightarrow> world" where
  "ackMessage message s = (emit (Ack message) s)\<lparr>ackDelay := max 0 (ackDelay s - 10)\<rparr>"

text \<open>
  \<open>setTimeout(() => { this.ackMessage(message); }, this.ackDelay)\<close>: the callback is kept
  with the delay read at that moment.
\<close>

definition setTimeout_ack :: "qmessage \<Rightarrow> world \<Rightarrow> world" where
  "setTimeout_ack message s =
     (emit (SetTimeout message (ackDelay s)) s)\<lparr>timers := timers s @ [(message, ackDelay s)]\<rparr>"

text \<open>The event loop runs the pending callback at position \<open>i\<close>.\<close>

definition fire_timer :: "nat \<Rightarrow> world \<Rightarrow> world" where
  "fire_timer i s =
     (if i < length (timers s)
      then ackMessage (fst (timers s ! i)) (s\<lparr>timers := take i (timers s) @ drop (Suc i) (timers s)\<rparr>)
      else s)"

text \<open>The two log lines that \<open>onConsume\<close> writes once the envelope is decoded.\<close>

definition announce :: "envelope \<Rightarrow> world \<Rightarrow> world" where
  "announce d s =
     emit (Log Debug ''Message'')
       (emit (Log Info
                (''Sending message of type '' @ squote (show_js (m_type d))
                 @ '' to channel '' @ squote (show_js (m_channel d))
                 @ '' on team '' @ squote (show_js (m_team d)) @ ''.'')) s)"

text \<open>
  \<open>onConsume\<close>: the result is \<open>None\<close> when the returned promise resolves and \<open>Some e\<close> when
  it rejects with \<open>e\<close>. The \<open>finally\<close> block runs in both cases.
\<close>

definition onConsume :: "env \<Rightarrow> qmessage \<Rightarrow> world \<Rightarrow> js_error option \<times> world" where
  "onConsume E message s =
     (let decoded = (case parsed_content message of Inl _ \<Rightarrow> None | Inr d \<Rightarrow> Some d);
          attempt =
            (case parsed_content message of
               Inl e \<Rightarrow> (Inl e, s)
             | Inr d \<Rightarrow>
                 processQueueMessage E d (announce d s));
          handled =
            (case attempt of
               (Inr _, s1) \<Rightarrow> (None, s1)
             | (Inl error, s1) \<Rightarrow>
                 (if ERROR_NOT_IN_CHANNEL = err_message error then
                    (case decoded of
                       None \<Rightarrow> (Some (mkTypeError ''Cannot read property 'team' of undefined''), s1)
                     | Some d \<Rightarrow>
                         (case getSlack E (m_team d) s1 of
                            (Inl e, s2) \<Rightarrow> (Some e, s2)
                          | (Inr slack, s2) \<Rightarrow>
                              (case invoke E slack (Dm (m_uid d) (Some INVITE_BEFORE_ACTIONS) None) s2 of
                                 (Inl e, s3) \<Rightarrow> (Some e, s3)
                               | (Inr _, s3) \<Rightarrow> (None, s3))))
                  else (None, reportError E error decoded (emit (Log Error (err_message error)) s1))))
      in (fst handled, setTimeout_ack message (snd handled)))"

section \<open>SlackListener: the inbound relay\<close>

definition PUBLIC_CHANNEL_TEXT :: string where
  "PUBLIC_CHANNEL_TEXT = ''You can't play Chat & Slash in public channels.  Create a new private channel, then `/invite @chatandslash` before typing `/chatandslash`.''"

definition INVITE_BEFORE_START :: string where
  "INVITE_BEFORE_START = ''The Chat & Slash bot needs to be invited to your channel before you can play.  Type `/invite @chatandslash` before typing `/chatandslash`.''"

definition getCharacterChannel :: "env \<Rightarrow> jsstr \<Rightarrow> jsstr \<Rightarrow> world \<Rightarrow> jsstr \<times> world" where
  "getCharacterChannel E uid teamid s =
     (let rows = characters_table E (trace s) uid teamid;
          s1 = emit (CharacterQuery uid teamid) s
      in case rows of [] \<Rightarrow> (Some [], s1) | channel # _ \<Rightarrow> (channel, s1))"

definition isValidToken :: "env \<Rightarrow> string \<Rightarrow> jsstr \<Rightarrow> bool" where
  "isValidToken E requestType token =
     (if ''payment'' = requestType \<and> env_CNS_API_TOKEN E = token then True
      else if env_VERIFICATION_TOKEN E = token then True
      else False)"

definition upper_char :: "char \<Rightarrow> char" where
  "upper_char c =
     (if (97::nat) \<le> of_char c \<and> of_char c \<le> (122::nat) then char_of (of_char c - (32::nat)) else c)"

definition lower_char :: "char \<Rightarrow> char" where
  "lower_char c =
     (if (65::nat) \<le> of_char c \<and> of_char c \<le> (90::nat) then char_of (of_char c + (32::nat)) else c)"

definition capitalize :: "string \<Rightarrow> string" where
  "capitalize x = (case x of [] \<Rightarrow> [] | c # cs \<Rightarrow> upper_char c # map lower_char cs)"

definition processPayload :: "env \<Rightarrow> string \<Rightarrow> slash_body \<Rightarrow> world \<Rightarrow> world" where
  "processPayload E type body s =
     (if isValidToken E type (b_token body)
      then enqueue E \<lparr>in_type = type, in_payload = BodyPayload body\<rparr>
             (emit (Log Debug (capitalize type)) s)
      else emit (Log Warn (''Payload token '' @ squote (show_js (b_token body)) @ '' is not valid.'')) s)"

definition finalizeNewGame ::
  "env \<Rightarrow> jsstr \<Rightarrow> jsstr \<Rightarrow> jsstr \<Rightarrow> jsstr \<Rightarrow> jsstr \<Rightarrow> world \<Rightarrow> world" where
  "finalizeNewGame E uid teamid channel name email s =
     emit (Log Info ''Starting new game.'')
       (enqueue E \<lparr>in_type = ''new-game'',
                   in_payload = NewGamePayload uid teamid channel name email\<rparr> s)"

text \<open>
  \<open>info.user.real_name\<close> and then \<open>info.user.profile.email\<close>, as the argument
  lists read them: a missing \<open>user\<close> or \<open>profile\<close> throws.
\<close>

definition read_user :: "response \<Rightarrow> js_error + jsstr \<times> jsstr" where
  "read_user info =
     (case r_user info of
        None \<Rightarrow> Inl (mkTypeError ''Cannot read property 'real_name' of undefined'')
      | Some u \<Rightarrow>
          (case u_profile u of
             None \<Rightarrow> Inl (mkTypeError ''Cannot read property 'email' of undefined'')
           | Some email \<Rightarrow> Inr (u_real_name u, email)))"

definition onChatAndSlash :: "env \<Rightarrow> slash_body \<Rightarrow> world \<Rightarrow> js_error option \<times> world" where
  "onChatAndSlash E body s =
     (case getSlack E (b_team_id body) s of
        (Inl e, s1) \<Rightarrow> (Some e, s1)
      | (Inr slack, s1) \<Rightarrow>
          if b_channel_name body \<noteq> Some CHANNEL_PRIVATEGROUP then
            (case invoke E slack (Dm (b_user_id body) (Some PUBLIC_CHANNEL_TEXT) None)
                    (emit (Log Warn
                             (''Attempt to start game in public channel on team ''
                              @ show_js (b_team_id body) @ '', channel '' @ show_js (b_channel_id body)
                              @ '', by user '' @ show_js (b_user_id body) @ ''.'')) s1) of
               (Inl e, s2) \<Rightarrow> (Some e, s2)
             | (Inr _, s2) \<Rightarrow> (None, s2))
          else
            (case invoke E slack (GetConversationMembers (b_channel_id body)) s1 of
               (Inl err, s2) \<Rightarrow>
                 if ERROR_NOT_IN_CHANNEL = err_message err then
                   (case invoke E slack (Dm (b_user_id body) (Some INVITE_BEFORE_START) None)
                           (emit (Log Warn
                                    (''Attempt to start game without bot in channel on team ''
                                     @ show_js (b_team_id body) @ '', channel ''
                                     @ show_js (b_channel_id body) @ '', by user ''
                                     @ show_js (b_user_id body) @ ''.'')) s2) of
                      (Inl e, s3) \<Rightarrow> (Some e, s3)
                    | (Inr _, s3) \<Rightarrow> (None, s3))
                 else (Some err, s2)
             | (Inr _, s2) \<Rightarrow>
                 (case getCharacterChannel E (b_user_id body) (b_team_id body) s2 of
                    (existingChannel, s3) \<Rightarrow>
                      if existingChannel = b_channel_id body then
                        (None, processPayload E ''slash'' body s3)
                      else if Some [] \<noteq> existingChannel then
                        (case invoke E slack (GetConversationInfo existingChannel)
                                (emit (Log Warn
                                         (''Attempt to start game in second channel on team ''
                                          @ show_js (b_team_id body) @ '', channel ''
                                          @ show_js (b_channel_id body) @ '', by user ''
                                          @ show_js (b_user_id body) @ ''.'')) s3) of
                           (Inl e, s4) \<Rightarrow> (Some e, s4)
                         | (Inr channelInfo, s4) \<Rightarrow>
                             (case invoke E slack
                                     (Dm (b_user_id body)
                                        (Some (''You already have a game of Chat & Slash on this team, in the channel: `''
                                               @ show_js (r_name channelInfo) @ ''`.''))
                                        None) s4 of
                                (Inl e, s5) \<Rightarrow> (Some e, s5)
                              | (Inr _, s5) \<Rightarrow> (None, s5)))
                      else
                        (case invoke E slack (UserInfo (b_user_id body)) s3 of
                           (Inl e, s4) \<Rightarrow> (Some e, s4)
                         | (Inr info, s4) \<Rightarrow>
                             (case read_user info of
                                Inl e \<Rightarrow> (Some e, s4)
                              | Inr (real_name, email) \<Rightarrow>
                                  (None,
                                   finalizeNewGame E (b_user_id body) (b_team_id body)
                                     (b_channel_id body) real_name email s4))))))"

text \<open>
  \<open>onSlash\<close>: the response is sent first; \<open>channel_id.substr\<close> on an undefined
  \<open>channel_id\<close> throws.
\<close>

definition onSlash :: "env \<Rightarrow> slash_body \<Rightarrow> world \<Rightarrow> js_error option \<times> world" where
  "onSlash E body s =
     (let s1 = emit (ResSend []) s
      in case b_channel_id body of
           None \<Rightarrow> (Some (mkTypeError ''Cannot read property 'substr' of undefined''), s1)
         | Some channel_id \<Rightarrow>
             if ''G'' \<noteq> take 1 channel_id then (None, s1)
             else if b_command body = Some COMMAND_CHATANDSLASH then onChatAndSlash E body s1
             else (None, processPayload E ''slash'' body s1))"

subsection \<open>Channel provisioning\<close>

definition hexdigit :: "nat \<Rightarrow> char" where
  "hexdigit n = ''0123456789abcdef'' ! n"

definition hex_byte :: "8 word \<Rightarrow> string" where
  "hex_byte b = [hexdigit (unat b div 16), hexdigit (unat b mod 16)]"

definition toHex :: "8 word list \<Rightarrow> string" where
  "toHex bs = concat (map hex_byte bs)"

definition randomBytes :: "env \<Rightarrow> nat \<Rightarrow> world \<Rightarrow> 8 word list \<times> world" where
  "randomBytes E n s =
     (let bytes = map (entropy E (trace s)) [0..<n] in (bytes, emit (RandomBytes bytes) s))"

definition createChannelName :: "env \<Rightarrow> world \<Rightarrow> string \<times> world" where
  "createChannelName E s = (case randomBytes E 3 s of (bs, s1) \<Rightarrow> (''game-'' @ toHex bs, s1))"

text \<open>
  \<open>joinUserToNewChannel\<close> calls itself for as long as the platform answers
  \<open>name_taken\<close>; the result is \<open>None\<close> when that never ends. Reading
  \<open>createResponse.group.id\<close> for the first invitation throws when the response has no
  \<open>group\<close>.
\<close>

partial_function (option) joinUserToNewChannel ::
  "env \<Rightarrow> jsstr \<Rightarrow> jsstr \<Rightarrow> jsstr \<Rightarrow> string \<Rightarrow> slack \<Rightarrow> world
     \<Rightarrow> ((js_error + jsstr) \<times> world) option" where
  "joinUserToNewChannel E uid name email channel slack s =
     (case invoke E slack (CreatePrivateChannel channel) s of
        (Inl e, s1) \<Rightarrow> Some (Inl e, s1)
      | (Inr createResponse, s1) \<Rightarrow>
          if \<not> r_ok createResponse then
            (if ERROR_CHANNEL_EXISTS = (case r_error createResponse of None \<Rightarrow> [] | Some c \<Rightarrow> c)
             then (case createChannelName E
                          (emit (Log Warn (''Tried to create channel that already exists: '' @ channel)) s1) of
                     (channel', s2) \<Rightarrow> joinUserToNewChannel E uid name email channel' slack s2)
             else Some (Inl (mkError ''Could not create private channel.''),
                        emit (Log Error ''Could not create private channel.'') s1))
          else
            (case r_group createResponse of
               None \<Rightarrow> Some (Inl (mkTypeError ''Cannot read property 'id' of undefined''), s1)
             | Some group_id \<Rightarrow>
                 (case invoke E slack (InvitePrivateChannel group_id uid) s1 of
                    (Inl e, s2) \<Rightarrow> Some (Inl e, s2)
                  | (Inr inviteResponse, s2) \<Rightarrow>
                      if \<not> r_ok inviteResponse
                         \<and> \<not> (env_MODE E = Some ''dev''
                              \<and> r_error inviteResponse = Some ''cant_invite_self'')
                      then Some (Inl (mkError ''Could not invite user to channel.''),
                                 emit (Log Error ''Could not invite user to channel.'') s2)
                      else
                        (case invoke E slack
                                (InvitePrivateChannel group_id
                                   (case slack of Client client \<Rightarrow> Some (botId client)
                                    | Inherited _ \<Rightarrow> None))
                                (if \<not> r_ok inviteResponse
                                 then emit (Log Info ''Skipping cannot invite self in dev mode error.'') s2
                                 else s2) of
                           (Inl e, s3) \<Rightarrow> Some (Inl e, s3)
                         | (Inr botInviteResponse, s3) \<Rightarrow>
                             if \<not> r_ok botInviteResponse
                             then Some (Inl (mkError ''Could not invite bot to channel.''),
                                        emit (Log Error ''Could not invite bot to channel.'') s3)
                             else Some (Inr group_id, s3)))))"

text \<open>
  The event of a workspace, as \<open>processEvent\<close> reads it: its \<open>type\<close>, and the \<open>id\<close>
  and \<open>team_id\<close> of its \<open>user\<close> (\<open>None\<close> when the event has no \<open>user\<close>).
\<close>

record event_user =
  eu_id :: jsstr
  eu_team_id :: jsstr

record slack_event =
  ev_type :: jsstr
  ev_user :: "event_user option"

definition EVENT_TEAM_JOIN :: string where
  "EVENT_TEAM_JOIN = ''team_join''"

text \<open>
  \<open>processEvent\<close>: the arguments of \<open>joinUserToNewChannel\<close> are evaluated from left to
  right, so the profile is read before the channel name is drawn.
\<close>

definition processEvent :: "env \<Rightarrow> slack_event \<Rightarrow> world \<Rightarrow> (js_error option \<times> world) option" where
  "processEvent E ev s =
     (if Some EVENT_TEAM_JOIN = ev_type ev then
        (case ev_user ev of
           None \<Rightarrow> Some (Some (mkTypeError ''Cannot read property 'team_id' of undefined''), s)
         | Some u \<Rightarrow>
             (case getSlack E (eu_team_id u) s of
                (Inl e, s1) \<Rightarrow> Some (Some e, s1)
              | (Inr slack, s1) \<Rightarrow>
                  if (case slack of Client client \<Rightarrow> autoStart client = Some True
                      | Inherited _ \<Rightarrow> False) then
                    (case invoke E slack (UserInfo (eu_id u)) s1 of
                       (Inl e, s2) \<Rightarrow> Some (Some e, s2)
                     | (Inr info, s2) \<Rightarrow>
                         (case read_user info of
                            Inl e \<Rightarrow> Some (Some e, s2)
                          | Inr (real_name, email) \<Rightarrow>
                              (case createChannelName E s2 of
                                 (name, s3) \<Rightarrow>
                                   (case joinUserToNewChannel E (eu_id u) real_name email name
                                           slack s3 of
                                      None \<Rightarrow> None
                                    | Some (Inl e, s4) \<Rightarrow> Some (Some e, s4)
                                    | Some (Inr channel, s4) \<Rightarrow>
                                        Some (None,
                                              finalizeNewGame E (eu_id u) (eu_team_id u) channel
                                                real_name email s4)))))
                  else Some (None, s1)))
      else Some (None,
                 emit (Log Warn (''Unexpected event type: '' @ squote (show_js (ev_type ev)) @ ''.'')) s))"

section \<open>Reading the trace\<close>

text \<open>The platform calls made, in order.\<close>

fun calls_of :: "event list \<Rightarrow> (session \<times> pcall) list" where
  "calls_of [] = []"
| "calls_of (Call c p r # evs) = (c, p) # calls_of evs"
| "calls_of (_ # evs) = calls_of evs"

text \<open>The messages written to a queue, with the queue's name.\<close>

fun enqueued :: "event list \<Rightarrow> (string \<times> inbound) list" where
  "enqueued [] = []"
| "enqueued (SendToQueue q m # evs) = (q, m) # enqueued evs"
| "enqueued (_ # evs) = enqueued evs"

text \<open>The queue messages acknowledged.\<close>

fun acks :: "event list \<Rightarrow> qmessage list" where
  "acks [] = []"
| "acks (Ack m # evs) = m # acks evs"
| "acks (_ # evs) = acks evs"

text \<open>
  What \<open>reportError\<close> leaves in the trace: the exception handed to the tracker, or in
  development mode the log line that opens the local report.
\<close>

fun is_report :: "event \<Rightarrow> bool" where
  "is_report (CaptureException e info) = True"
| "is_report (Log l t) = (l = Info \<and> t = ''Reporting error...'')"
| "is_report _ = False"

definition reports :: "event list \<Rightarrow> event list" where
  "reports evs = filter is_report evs"

text \<open>The lines logged at one level.\<close>

fun logs :: "level \<Rightarrow> event list \<Rightarrow> string list" where
  "logs l [] = []"
| "logs l (Log l' t # evs) = (if l' = l then t # logs l evs else logs l evs)"
| "logs l (_ # evs) = logs l evs"

text \<open>The \<open>Slack\<close> objects constructed for one key of \<open>slackClients\<close>.\<close>

fun creations :: "string \<Rightarrow> event list \<Rightarrow> session list" where
  "creations k [] = []"
| "creations k (NewSlack k' c # evs) = (if k' = k then c # creations k evs else creations k evs)"
| "creations k (_ # evs) = creations k evs"

text \<open>The answers the platform gave to \<open>createPrivateChannel\<close>, with the name asked for.\<close>

fun create_answers :: "event list \<Rightarrow> (string \<times> (js_error + response)) list" where
  "create_answers [] = []"
| "create_answers (Call c (CreatePrivateChannel n) r # evs) = (n, r) # create_answers evs"
| "create_answers (_ # evs) = create_answers evs"




text \<open>The byte strings that \<open>crypto.randomBytes\<close> returned.\<close>

fun draws :: "event list \<Rightarrow> 8 word list list" where
  "draws [] = []"
| "draws (RandomBytes bytes # evs) = bytes # draws evs"
| "draws (_ # evs) = draws evs"



text \<open>
  The platform operation that \<open>processQueueMessage\<close> dispatches an envelope to, read off
  its chain of comparisons on \<open>message.type\<close>; \<open>None\<close> for the final \<open>else\<close>.
\<close>

definition operation_of :: "envelope \<Rightarrow> pcall option" where
  "operation_of message =
     (if Some ''say'' = m_type message then
        Some (PostMessage (m_channel message) (m_text message) (m_opts message))
      else if Some ''update'' = m_type message then
        Some (UpdateMessage (m_ts message) (m_channel message) (m_text message) (m_opts message))
      else if Some ''delete'' = m_type message then
        Some (DeleteMessage (m_ts message) (m_channel message))
      else if Some ''dm'' = m_type message then
        Some (Dm (m_uid message) (m_text message) (m_opts message))
      else if Some ''dialog'' = m_type message then
        Some (Dialog (m_triggerId message) (m_dialog message))
      else None)"

section \<open>Runs of the process\<close>

text \<open>
  The states the process can be in: after the constructors, and after any handler or
  timer callback has run in such a state, whatever the collaborators answer.
\<close>

inductive reachable :: "world \<Rightarrow> bool" where
  reach_constructor: "reachable constructor"
| reach_onConsume: "reachable s \<Longrightarrow> reachable (snd (onConsume E message s))"
| reach_timer: "reachable s \<Longrightarrow> reachable (fire_timer i s)"
| reach_getSlack: "reachable s \<Longrightarrow> reachable (snd (getSlack E teamId s))"
| reach_onSlash: "reachable s \<Longrightarrow> reachable (snd (onSlash E body s))"
| reach_processEvent: "reachable s \<Longrightarrow> processEvent E ev s = Some (r, s') \<Longrightarrow> reachable s'"

text \<open>A sequence of \<open>getSlack\<close> calls, one after the other, each with its own collaborators.\<close>

fun getSlack_calls :: "(env \<times> jsstr) list \<Rightarrow> world \<Rightarrow> world" where
  "getSlack_calls [] s = s"
| "getSlack_calls ((E, teamId) # cs) s = getSlack_calls cs (snd (getSlack E teamId s))"

text \<open>
  The invariant that ties \<open>slackClients\<close> to the objects constructed: a key with no
  entry has had no object built for it, a key with an entry exactly one.
\<close>

definition cache_inv :: "world \<Rightarrow> bool" where
  "cache_inv s = (\<forall>k. (slackClients s k = None \<and> creations k (trace s) = [])
                     \<or> (slackClients s k \<noteq> None \<and> length (creations k (trace s)) = 1))"

section \<open>Concrete collaborators\<close>

text \<open>
  A small installation on which the statements below are run: one workspace \<open>T1\<close> in
  the \<open>teams\<close> table, no characters, a platform that accepts every call.
\<close>

definition ok_response :: response where
  "ok_response = \<lparr>r_ok = True, r_error = None, r_ts = None, r_name = None, r_group = None,
                   r_user = None\<rparr>"

definition team_T1 :: team_row where
  "team_T1 = \<lparr>bot_token = ''xoxb-1'', app_token = ''xoxp-1'', bot_id = ''B1'', autostart = True\<rparr>"

definition env0 :: env where
  "env0 = \<lparr>env_MODE = Some ''production'', env_VERIFICATION_TOKEN = Some ''secret'',
           env_CNS_API_TOKEN = Some ''cns'', env_QUEUE_SUFFIX = Some ''test'',
           teams_table = (\<lambda>tr t. if t = Some ''T1'' then [team_T1] else []),
           characters_table = (\<lambda>tr u t. []),
           platform = (\<lambda>tr c p. Inr ok_response),
           entropy = (\<lambda>tr i. 0xAB)\<rparr>"

definition client_T1 :: session where
  "client_T1 = \<lparr>botToken = ''xoxb-1'', appToken = ''xoxp-1'', botId = ''B1'', autoStart = None\<rparr>"

text \<open>The state in which the session of \<open>T1\<close> has been created and connected.\<close>

definition state_T1_cached :: world where
  "state_T1_cached = constructor\<lparr>slackClients := [''T1'' \<mapsto> client_T1\<lparr>autoStart := Some True\<rparr>]\<rparr>"

text \<open>A platform on which \<open>connect\<close> fails.\<close>

definition env_connect_fails :: env where
  "env_connect_fails =
     env0\<lparr>platform := (\<lambda>tr c p. case p of Connect \<Rightarrow> Inl (mkError ''connect ECONNREFUSED'')
                                      | _ \<Rightarrow> Inr ok_response)\<rparr>"

text \<open>Queue messages: an envelope with every field absent, and the envelopes built on it.\<close>

definition envelope0 :: envelope where
  "envelope0 = \<lparr>m_type = None, m_channel = None, m_team = None, m_uid = None, m_ts = None,
                 m_text = None, m_opts = None, m_triggerId = None, m_dialog = None,
                 m_messageDelay = None\<rparr>"

definition say_no_team :: envelope where
  "say_no_team = envelope0\<lparr>m_type := Some ''say'', m_channel := Some ''C1'', m_text := Some ''hi''\<rparr>"

definition say_C1 :: envelope where
  "say_C1 = envelope0\<lparr>m_type := Some ''say'', m_channel := Some ''C1'', m_team := Some ''T1'',
                      m_uid := Some ''U1'', m_text := Some ''hi''\<rparr>"

definition dm_U1 :: envelope where
  "dm_U1 = envelope0\<lparr>m_type := Some ''dm'', m_team := Some ''T1'', m_uid := Some ''U1'',
                     m_text := Some ''hi''\<rparr>"

definition delivery :: "nat \<Rightarrow> envelope \<Rightarrow> qmessage" where
  "delivery n d = \<lparr>delivery_tag = n, parsed_content = Inr d\<rparr>"

text \<open>Platforms that answer one operation differently.\<close>

definition env_post_ts :: env where
  "env_post_ts =
     env0\<lparr>platform := (\<lambda>tr c p. case p of PostMessage _ _ _ \<Rightarrow> Inr (ok_response\<lparr>r_ts := Some ''123.45''\<rparr>)
                                      | _ \<Rightarrow> Inr ok_response)\<rparr>"

definition stale_error :: js_error where
  "stale_error = \<lparr>err_name = ''Error'', err_message = ''An API error occurred: message_not_found'',
                   err_data_error = Some ''message_not_found''\<rparr>"

definition env_dm_stale :: env where
  "env_dm_stale =
     env0\<lparr>platform := (\<lambda>tr c p. case p of Dm _ _ _ \<Rightarrow> Inl stale_error | _ \<Rightarrow> Inr ok_response)\<rparr>"

definition not_in_channel_error :: js_error where
  "not_in_channel_error = \<lparr>err_name = ''Error'', err_message = ''channel_not_found'',
                            err_data_error = Some ''channel_not_found''\<rparr>"

text \<open>
  The same refusal as the platform's client library words it: the code only in the
  structured data, the message a sentence.
\<close>

definition coded_not_in_channel_error :: js_error where
  "coded_not_in_channel_error =
     \<lparr>err_name = ''Error'', err_message = ''An API error occurred: channel_not_found'',
      err_data_error = Some ''channel_not_found''\<rparr>"

definition env_post_coded :: env where
  "env_post_coded =
     env0\<lparr>platform := (\<lambda>tr c p. case p of PostMessage _ _ _ \<Rightarrow> Inl coded_not_in_channel_error
                                      | _ \<Rightarrow> Inr ok_response)\<rparr>"

definition env_dm_not_in_channel :: env where
  "env_dm_not_in_channel =
     env0\<lparr>platform := (\<lambda>tr c p. case p of Dm _ _ _ \<Rightarrow> Inl not_in_channel_error
                                      | _ \<Rightarrow> Inr ok_response)\<rparr>"

text \<open>Slash commands: one from a public channel, one from a group conversation.\<close>

definition slash_general :: slash_body where
  "slash_general = \<lparr>b_token = Some ''secret'', b_team_id = Some ''T1'',
                     b_channel_id = Some ''C024BE91L'', b_channel_name = Some ''general'',
                     b_user_id = Some ''U1'', b_command = Some ''/chatandslash''\<rparr>"

definition slash_mpdm :: slash_body where
  "slash_mpdm = \<lparr>b_token = Some ''secret'', b_team_id = Some ''T1'',
                  b_channel_id = Some ''G024BE91L'', b_channel_name = Some ''mpdm-ann--bob--cy-1'',
                  b_user_id = Some ''U1'', b_command = Some ''/chatandslash''\<rparr>"





section \<open>Reading a trace that grows\<close>

lemma calls_of_append [simp]: "calls_of (xs @ ys) = calls_of xs @ calls_of ys"
  by (induction xs rule: calls_of.induct) simp_all

lemma enqueued_append [simp]: "enqueued (xs @ ys) = enqueued xs @ enqueued ys"
  by (induction xs rule: enqueued.induct) simp_all

lemma acks_append [simp]: "acks (xs @ ys) = acks xs @ acks ys"
  by (induction xs rule: acks.induct) simp_all

lemma reports_append [simp]: "reports (xs @ ys) = reports xs @ reports ys"
  by (simp add: reports_def)

lemma logs_append [simp]: "logs l (xs @ ys) = logs l xs @ logs l ys"
  by (induction l xs rule: logs.induct) simp_all

lemma creations_append [simp]: "creations k (xs @ ys) = creations k xs @ creations k ys"
  by (induction k xs rule: creations.induct) simp_all

lemma draws_append [simp]: "draws (xs @ ys) = draws xs @ draws ys"
  by (induction xs rule: draws.induct) simp_all

lemma create_answers_append [simp]:
  "create_answers (xs @ ys) = create_answers xs @ create_answers ys"
  by (induction xs rule: create_answers.induct) simp_all

lemma emit_fields [simp]:
  "trace (emit ev s) = trace s @ [ev]"
  "ackDelay (emit ev s) = ackDelay s"
  "timers (emit ev s) = timers s"
  "slackClients (emit ev s) = slackClients s"
  by (simp_all add: emit_def)

lemma invoke_Client:
  "invoke E (Client c) p s
   = (platform E (trace s) c p, emit (Call c p (platform E (trace s) c p)) s)"
  by (simp add: invoke_def Let_def)

lemma invoke_Inherited:
  "invoke E (Inherited k) p s
   = (Inl (mkTypeError (''slack.'' @ method_name p @ '' is not a function'')), s)"
  by (simp add: invoke_def)

lemma invoke_fields [simp]:
  "ackDelay (snd (invoke E v p s)) = ackDelay s"
  "timers (snd (invoke E v p s)) = timers s"
  "slackClients (snd (invoke E v p s)) = slackClients s"
  by (simp_all add: invoke_def Let_def split: slack.splits)

lemma invoke_quiet:
  "acks (trace (snd (invoke E v p s))) = acks (trace s)"
  "reports (trace (snd (invoke E v p s))) = reports (trace s)"
  "enqueued (trace (snd (invoke E v p s))) = enqueued (trace s)"
  "logs l (trace (snd (invoke E v p s))) = logs l (trace s)"
  "creations k (trace (snd (invoke E v p s))) = creations k (trace s)"
  by (simp_all add: invoke_def Let_def reports_def split: slack.splits)

lemma invoke_frame:
  assumes "invoke E v p s = (r, s1)"
  shows "ackDelay s1 = ackDelay s \<and> timers s1 = timers s \<and> acks (trace s1) = acks (trace s)"
  using invoke_fields(1,2) [of E v p s] invoke_quiet(1) [of E v p s] assms by simp

lemma getTeamInfo_frame:
  "ackDelay (snd (getTeamInfo E t s)) = ackDelay s"
  "timers (snd (getTeamInfo E t s)) = timers s"
  "slackClients (snd (getTeamInfo E t s)) = slackClients s"
  by (simp_all add: getTeamInfo_def Let_def split: list.splits)

lemma getSlack_ackDelay: "ackDelay (snd (getSlack E t s)) = ackDelay s"
  using getTeamInfo_frame(1) [of E t s]
  by (auto simp: getSlack_def Let_def invoke_Client split: option.splits prod.splits sum.splits)

lemma getSlack_timers: "timers (snd (getSlack E t s)) = timers s"
  using getTeamInfo_frame(2) [of E t s]
  by (auto simp: getSlack_def Let_def invoke_Client split: option.splits prod.splits sum.splits)



lemma getSlack_quiet:
  "acks (trace (snd (getSlack E t s))) = acks (trace s)"
  "reports (trace (snd (getSlack E t s))) = reports (trace s)"
  "enqueued (trace (snd (getSlack E t s))) = enqueued (trace s)"
  "logs Warn (trace (snd (getSlack E t s))) = logs Warn (trace s)"
  "logs Error (trace (snd (getSlack E t s))) = logs Error (trace s)"
  by (auto simp: getSlack_def getTeamInfo_def Let_def invoke_Client reports_def
        split: option.splits prod.splits sum.splits list.splits)

lemma getSlack_frame:
  assumes "getSlack E t s = (r, s1)"
  shows "ackDelay s1 = ackDelay s" and "timers s1 = timers s"
    and "acks (trace s1) = acks (trace s)" and "reports (trace s1) = reports (trace s)"
    and "enqueued (trace s1) = enqueued (trace s)"
    and "logs Warn (trace s1) = logs Warn (trace s)"
    and "logs Error (trace s1) = logs Error (trace s)"
  using getSlack_ackDelay [of E t s] getSlack_timers [of E t s] getSlack_quiet [of E t s] assms
  by simp_all


lemma enqueue_fields [simp]:
  "ackDelay (enqueue E m s) = ackDelay s"
  "timers (enqueue E m s) = timers s"
  "slackClients (enqueue E m s) = slackClients s"
  "trace (enqueue E m s) = trace s @ [AssertQueue (inQueueName E), SendToQueue (inQueueName E) m]"
  by (simp_all add: enqueue_def)

lemma op_frame:
  assumes "say E ch t tx opt md s = (r, s') \<or> update E ts ch t tx opt s = (r, s')
           \<or> delete E ts ch t s = (r, s') \<or> dm E u t tx opt s = (r, s')
           \<or> dialog E t tr dl s = (r, s')"
  shows "ackDelay s' = ackDelay s \<and> timers s' = timers s \<and> acks (trace s') = acks (trace s)"
proof -
  obtain r1 s1 where g: "getSlack E t s = (r1, s1)" by (cases "getSlack E t s")
  note f = getSlack_frame(1-3) [OF g]
  show ?thesis
    using assms f
    by (cases r1)
       (auto simp: say_def update_def delete_def dm_def dialog_def g dest!: invoke_frame)
qed

lemma dispatch_frame:
  assumes "dispatch E d s = (r, s')"
  shows "ackDelay s' = ackDelay s \<and> timers s' = timers s \<and> acks (trace s') = acks (trace s)"
  using assms unfolding dispatch_def
  by (auto simp: discard_def split: if_splits prod.splits sum.splits
           dest!: op_frame [OF disjI1] op_frame [OF disjI2, OF disjI1]
                  op_frame [OF disjI2, OF disjI2, OF disjI1]
                  op_frame [OF disjI2, OF disjI2, OF disjI2, OF disjI1]
                  op_frame [OF disjI2, OF disjI2, OF disjI2, OF disjI2])

lemma processQueueMessage_frame:
  assumes "processQueueMessage E d s = (r, s')"
  shows "ackDelay s' = ackDelay s \<and> timers s' = timers s \<and> acks (trace s') = acks (trace s)"
  using assms unfolding processQueueMessage_def
  by (auto split: if_splits prod.splits sum.splits dest!: dispatch_frame)


lemma announce_fields [simp]:
  "ackDelay (announce d s) = ackDelay s"
  "timers (announce d s) = timers s"
  "slackClients (announce d s) = slackClients s"
  "acks (trace (announce d s)) = acks (trace s)"
  "calls_of (trace (announce d s)) = calls_of (trace s)"
  "enqueued (trace (announce d s)) = enqueued (trace s)"
  "reports (trace (announce d s)) = reports (trace s)"
  "logs Warn (trace (announce d s)) = logs Warn (trace s)"
  "logs Error (trace (announce d s)) = logs Error (trace s)"
  by (simp_all add: announce_def reports_def)

lemma reportError_fields [simp]:
  "ackDelay (reportError E e i s) = ackDelay s"
  "timers (reportError E e i s) = timers s"
  "slackClients (reportError E e i s) = slackClients s"
  "acks (trace (reportError E e i s)) = acks (trace s)"
  "calls_of (trace (reportError E e i s)) = calls_of (trace s)"
  "enqueued (trace (reportError E e i s)) = enqueued (trace s)"
  by (simp_all add: reportError_def)

lemma setTimeout_ack_fields [simp]:
  "ackDelay (setTimeout_ack m s) = ackDelay s"
  "timers (setTimeout_ack m s) = timers s @ [(m, ackDelay s)]"
  "slackClients (setTimeout_ack m s) = slackClients s"
  "trace (setTimeout_ack m s) = trace s @ [SetTimeout m (ackDelay s)]"
  by (simp_all add: setTimeout_ack_def)

lemma getSlack_frame3:
  "getSlack E t s = (r, s1) \<Longrightarrow>
   ackDelay s1 = ackDelay s \<and> timers s1 = timers s \<and> acks (trace s1) = acks (trace s)"
  by (simp add: getSlack_frame)

lemma onConsume_frame:
  "ackDelay (snd (onConsume E m s)) = ackDelay s
   \<and> timers (snd (onConsume E m s)) = timers s @ [(m, ackDelay s)]
   \<and> acks (trace (snd (onConsume E m s))) = acks (trace s)"
proof -
  define attempt where "attempt =
     (case parsed_content m of Inl e \<Rightarrow> (Inl e, s)
      | Inr d \<Rightarrow> processQueueMessage E d (announce d s))"
  obtain ra sa where a: "attempt = (ra, sa)" by (cases attempt)
  have fa: "ackDelay sa = ackDelay s \<and> timers sa = timers s \<and> acks (trace sa) = acks (trace s)"
    using a unfolding attempt_def
    by (auto split: sum.splits dest!: processQueueMessage_frame)
  show ?thesis
    unfolding onConsume_def Let_def attempt_def [symmetric] a
    using fa
    by (auto split: sum.splits option.splits prod.splits
             dest!: getSlack_frame3 invoke_frame)
qed


lemma getSlack_ackDelay_eq: "getSlack E t s = (r, s1) \<Longrightarrow> ackDelay s1 = ackDelay s"
  by (simp add: getSlack_frame)

lemma invoke_ackDelay_eq: "invoke E v p s = (r, s1) \<Longrightarrow> ackDelay s1 = ackDelay s"
  by (simp add: invoke_frame)

lemma processPayload_ackDelay [simp]: "ackDelay (processPayload E ty b s) = ackDelay s"
  by (simp add: processPayload_def)

lemma finalizeNewGame_ackDelay [simp]: "ackDelay (finalizeNewGame E u t c n e s) = ackDelay s"
  by (simp add: finalizeNewGame_def)

lemma getCharacterChannel_ackDelay_eq:
  "getCharacterChannel E u t s = (r, s1) \<Longrightarrow> ackDelay s1 = ackDelay s"
  by (auto simp: getCharacterChannel_def Let_def split: list.splits)

lemma createChannelName_ackDelay_eq:
  "createChannelName E s = (n, s1) \<Longrightarrow> ackDelay s1 = ackDelay s"
  by (auto simp: createChannelName_def randomBytes_def Let_def)

lemma onChatAndSlash_ackDelay: "ackDelay (snd (onChatAndSlash E b s)) = ackDelay s"
  unfolding onChatAndSlash_def
  by (auto split: prod.splits sum.splits if_splits
           dest!: getSlack_ackDelay_eq invoke_ackDelay_eq getCharacterChannel_ackDelay_eq)

lemma onSlash_ackDelay: "ackDelay (snd (onSlash E b s)) = ackDelay s"
  by (simp add: onSlash_def Let_def onChatAndSlash_ackDelay split: option.splits)



lemma joinUserToNewChannel_ackDelay:
  assumes "joinUserToNewChannel E uid name email channel slack s = Some y"
  shows "ackDelay (snd y) = ackDelay s"
proof (rule joinUserToNewChannel.raw_induct
         [where P = "\<lambda>E uid name email channel slack s y. ackDelay (snd y) = ackDelay s",
          OF _ assms], goal_cases)
  case (1 f E uid name email channel slack s y)
  show ?case
    using 1(2)
    by (auto split: prod.splits sum.splits if_splits option.splits
             dest!: invoke_ackDelay_eq createChannelName_ackDelay_eq 1(1))
qed

lemma processEvent_ackDelay:
  assumes "processEvent E ev s = Some (r, s')"
  shows "ackDelay s' = ackDelay s"
  using assms unfolding processEvent_def
  by (auto split: if_splits prod.splits sum.splits option.splits
           dest!: getSlack_ackDelay_eq invoke_ackDelay_eq createChannelName_ackDelay_eq
                  joinUserToNewChannel_ackDelay)

lemma fire_timer_nonneg: "0 \<le> ackDelay s \<Longrightarrow> 0 \<le> ackDelay (fire_timer i s)"
  by (simp add: fire_timer_def ackMessage_def)

lemma reachable_ackDelay: "reachable s \<Longrightarrow> 0 \<le> ackDelay s"
proof (induction rule: reachable.induct)
  case reach_constructor
  show ?case by (simp add: constructor_def)
next
  case (reach_onConsume s E message)
  then show ?case by (simp add: onConsume_frame)
next
  case (reach_timer s i)
  then show ?case by (simp add: fire_timer_nonneg)
next
  case (reach_getSlack s E teamId)
  then show ?case by (simp add: getSlack_ackDelay)
next
  case (reach_onSlash s E body)
  then show ?case by (simp add: onSlash_ackDelay)
next
  case (reach_processEvent s E ev r s')
  then show ?case by (simp add: processEvent_ackDelay)
qed

lemma ackMessage_fold:
  "0 \<le> ackDelay s \<Longrightarrow>
   ackDelay (fold ackMessage ms s) = max 0 (ackDelay s - 10 * int (length ms))"
proof (induction ms arbitrary: s)
  case Nil
  then show ?case by simp
next
  case (Cons m ms)
  have "0 \<le> ackDelay (ackMessage m s)" by (simp add: ackMessage_def)
  from Cons.IH [OF this] show ?case
    by (simp add: ackMessage_def max_def)
qed

lemma reports_simps [simp]:
  "reports [] = []"
  "reports (ev # evs) = (if is_report ev then ev # reports evs else reports evs)"
  by (simp_all add: reports_def)

lemma cached_emit [simp]: "cached (emit ev s) k = cached s k"
  by (simp add: cached_def)

lemma cached_own: "slackClients s k = Some client \<Longrightarrow> cached s k = Some (Client client)"
  by (simp add: cached_def)

lemma cached_None: "cached s k = None \<Longrightarrow> slackClients s k = None"
  by (simp add: cached_def split: option.splits)

lemma getSlack_hit:
  "cached s (show_js teamId) = Some found \<Longrightarrow> getSlack E teamId s = (Inr found, s)"
  by (simp add: getSlack_def)

lemma getSlack_cached_after:
  "getSlack E t s = (Inr found, s1) \<Longrightarrow> cached s1 (show_js t) = Some found"
  by (auto simp: getSlack_def getTeamInfo_def invoke_Client Let_def cached_def
           split: option.splits list.splits sum.splits if_splits)

lemma dispatch_operation:
  assumes "operation_of d = Some op"
    and "getSlack E (m_team d) s = (Inr (Client slack), s1)"
  shows "dispatch E d s =
           (case platform E (trace s1) slack op of
              Inl e \<Rightarrow> (Inl e, emit (Call slack op (Inl e)) s1)
            | Inr response \<Rightarrow>
                (Inr (),
                 if Some ''say'' = m_type d
                 then enqueue E
                        \<lparr>in_type = ''add_timestamp'',
                         in_payload = TimestampPayload (r_ts response) (m_channel d) (m_team d)\<rparr>
                        (emit (Call slack op (Inr response)) s1)
                 else emit (Call slack op (Inr response)) s1))"
  using assms
  by (auto simp: operation_of_def dispatch_def say_def update_def delete_def dm_def dialog_def
                 invoke_Client discard_def
           split: if_splits sum.splits)

lemma fire_last_timer:
  assumes "timers s' = ts @ [(m, d)]"
  shows "acks (trace (fire_timer (length ts) s')) = acks (trace s') @ [m]"
  using assms by (simp add: fire_timer_def ackMessage_def)

lemma onConsume_acknowledges:
  "timers (snd (onConsume E m s)) = timers s @ [(m, ackDelay s)]
   \<and> acks (trace (fire_timer (length (timers s)) (snd (onConsume E m s)))) = acks (trace s) @ [m]"
  using onConsume_frame [of E m s] fire_last_timer [of "snd (onConsume E m s)" "timers s" m "ackDelay s"]
  by simp

lemma processQueueMessage_dispatched:
  assumes "m_team d \<noteq> None" and "operation_of d = Some op"
    and "getSlack E (m_team d) s = (Inr (Client slack), s1)"
  shows "processQueueMessage E d s =
           (case platform E (trace s1) slack op of
              Inl e \<Rightarrow>
                if ERROR_MESSAGE_NOT_FOUND = error_type e
                then (Inr (), emit (Log Warn ''Attempting to delete invalid timestamp.'')
                               (emit (Call slack op (Inl e)) s1))
                else (Inl e, emit (Call slack op (Inl e)) s1)
            | Inr response \<Rightarrow>
                (Inr (),
                 if Some ''say'' = m_type d
                 then enqueue E
                        \<lparr>in_type = ''add_timestamp'',
                         in_payload = TimestampPayload (r_ts response) (m_channel d) (m_team d)\<rparr>
                        (emit (Call slack op (Inr response)) s1)
                 else emit (Call slack op (Inr response)) s1))"
proof -
  from assms(1) obtain t where t: "m_team d = Some t" by auto
  show ?thesis
    unfolding processQueueMessage_def dispatch_operation [OF assms(2,3)]
    by (simp add: t split: sum.splits)
qed

section \<open>The adaptive delay counter\<close>

text \<open>
  Claim C5. The counter \<open>ackDelay\<close> of the outbound relay is never negative in a
  reachable state; and from a state whose counter is \<open>V \<ge> 0\<close>, acknowledging \<open>N\<close>
  messages one after the other, with nothing in between, leaves the counter at
  \<open>max 0 (V - 10 * N)\<close>.
\<close>

theorem ackDelay_floor:
  "(reachable s \<longrightarrow> 0 \<le> ackDelay s)
   \<and> (0 \<le> ackDelay s \<longrightarrow>
        ackDelay (fold ackMessage ms s) = max 0 (ackDelay s - 10 * int (length ms)))"
  using reachable_ackDelay ackMessage_fold by blast

theorem ackDelay_floor_witness:
  "reachable constructor \<and> 0 \<le> ackDelay constructor
   \<and> 0 \<le> ackDelay (constructor\<lparr>ackDelay := 45\<rparr>)
   \<and> ackDelay (fold ackMessage
                  [\<lparr>delivery_tag = 1, parsed_content = Inl (mkError ''x'')\<rparr>,
                   \<lparr>delivery_tag = 2, parsed_content = Inl (mkError ''x'')\<rparr>,
                   \<lparr>delivery_tag = 3, parsed_content = Inl (mkError ''x'')\<rparr>]
                  (constructor\<lparr>ackDelay := 45\<rparr>)) = 15
   \<and> ackDelay (fold ackMessage
                  [\<lparr>delivery_tag = 1, parsed_content = Inl (mkError ''x'')\<rparr>,
                   \<lparr>delivery_tag = 2, parsed_content = Inl (mkError ''x'')\<rparr>]
                  (constructor\<lparr>ackDelay := 15\<rparr>)) = 0"
  using ackDelay_floor [of constructor "[]"]
        ackDelay_floor [of "constructor\<lparr>ackDelay := 45\<rparr>"
          "[\<lparr>delivery_tag = 1, parsed_content = Inl (mkError ''x'')\<rparr>,
            \<lparr>delivery_tag = 2, parsed_content = Inl (mkError ''x'')\<rparr>,
            \<lparr>delivery_tag = 3, parsed_content = Inl (mkError ''x'')\<rparr>]"]
        ackDelay_floor [of "constructor\<lparr>ackDelay := 15\<rparr>"
          "[\<lparr>delivery_tag = 1, parsed_content = Inl (mkError ''x'')\<rparr>,
            \<lparr>delivery_tag = 2, parsed_content = Inl (mkError ''x'')\<rparr>]"]
        reach_constructor
  by (simp add: constructor_def)

section \<open>The session cache\<close>

lemma getSlack_inherited:
  "slackClients s (show_js teamId) = None \<Longrightarrow> show_js teamId \<in> set Object_prototype \<Longrightarrow>
   getSlack E teamId s = (Inr (Inherited (show_js teamId)), s)"
  by (simp add: getSlack_def cached_def)

lemma getSlack_cache_inv:
  assumes "cache_inv s"
  shows "cache_inv (snd (getSlack E teamId s))"
proof (cases "cached s (show_js teamId)")
  case (Some found)
  then show ?thesis using assms by (simp add: getSlack_def)
next
  case None
  then have own: "slackClients s (show_js teamId) = None" by (rule cached_None)
  with assms have c0: "creations (show_js teamId) (trace s) = []"
    by (auto simp: cache_inv_def)
  show ?thesis
    using assms None own c0 unfolding cache_inv_def
    by (auto simp: getSlack_def getTeamInfo_def invoke_Client Let_def
             split: list.splits sum.splits)
qed

lemma getSlack_calls_cache_inv: "cache_inv s \<Longrightarrow> cache_inv (getSlack_calls cs s)"
  by (induction cs s rule: getSlack_calls.induct) (simp_all add: getSlack_cache_inv)

lemma cache_inv_constructor: "cache_inv constructor"
  by (simp add: cache_inv_def constructor_def)

lemma cache_inv_le: "cache_inv s \<Longrightarrow> length (creations k (trace s)) \<le> 1"
  unfolding cache_inv_def by (metis le_numeral_extra(4) list.size(3) zero_le)

lemma getSlack_calls_same_team:
  "cached s (show_js teamId) = Some found \<Longrightarrow>
   getSlack_calls (map (\<lambda>E. (E, teamId)) Es) s = s"
  by (induction Es) (simp_all add: getSlack_hit)

text \<open>
  Claim C6. A call of \<open>getSlack\<close> for a workspace whose session is in the cache returns
  that session and leaves the state as it was: nothing is read from the \<open>teams\<close> table,
  nothing is constructed, nothing is connected. And whatever sequence of calls is made
  from the start of the process, at most one \<open>Slack\<close> object is ever constructed for a
  given key.
\<close>

theorem getSlack_idempotent:
  "(slackClients s (show_js teamId) = Some client \<longrightarrow>
      getSlack E teamId s = (Inr (Client client), s))
   \<and> length (creations k (trace (getSlack_calls cs constructor))) \<le> 1"
  using getSlack_hit [OF cached_own]
        cache_inv_le [OF getSlack_calls_cache_inv [OF cache_inv_constructor]]
  by blast

theorem getSlack_idempotent_witness:
  "slackClients state_T1_cached (show_js (Some ''T1'')) = Some (client_T1\<lparr>autoStart := Some True\<rparr>)
   \<and> getSlack env0 (Some ''T1'') state_T1_cached
       = (Inr (Client (client_T1\<lparr>autoStart := Some True\<rparr>)), state_T1_cached)
   \<and> creations ''T1''
        (trace (getSlack_calls [(env0, Some ''T1''), (env0, Some ''T9''), (env0, Some ''T1'')]
                  constructor)) = [client_T1]"
  using getSlack_idempotent [of state_T1_cached "Some ''T1''" "client_T1\<lparr>autoStart := Some True\<rparr>"
          env0 "''T1''" "[]"]
  by (simp add: state_T1_cached_def show_js_def constructor_def client_T1_def env0_def
        getSlack_def getTeamInfo_def invoke_def emit_def Let_def team_T1_def ok_response_def
        cached_def Object_prototype_def)

text \<open>
  Claim C7, as stated: on a cache miss for a workspace with no row in the \<open>teams\<close>
  table, \<open>getSlack\<close> fails with an error that is an \<open>UnknownWorkspace\<close> error. It does
  fail, but the error is the \<open>TypeError\<close> that \<open>rows[0].bot_token\<close> throws on an empty
  result.
\<close>

theorem getSlack_unknown_team_counterexample:
  "fst (getSlack env0 (Some ''T404'') constructor)
     = Inl \<lparr>err_name = ''TypeError'',
            err_message = ''Cannot read property 'bot_token' of undefined'',
            err_data_error = None\<rparr>
   \<and> err_name \<lparr>err_name = ''TypeError'',
            err_message = ''Cannot read property 'bot_token' of undefined'',
            err_data_error = None\<rparr> \<noteq> ''UnknownWorkspace''"
  by (simp add: getSlack_def getTeamInfo_def Let_def constructor_def env0_def mkTypeError_def
        cached_def Object_prototype_def show_js_def)

text \<open>
  Claim C7, amended: on a cache miss, that is when \<open>this.slackClients[teamId]\<close> is
  undefined (no stored object and no inherited member under that key), for a workspace
  with no row in the \<open>teams\<close> table, \<open>getSlack\<close> fails with the \<open>TypeError\<close> raised by
  reading \<open>bot_token\<close> of the missing first row; nothing is stored in the cache, no
  \<open>Slack\<close> object is constructed and no platform call is made.
\<close>

theorem getSlack_unknown_team:
  assumes "cached s (show_js teamId) = None"
    and "\<forall>tr. teams_table E tr teamId = []"
  shows "fst (getSlack E teamId s) = Inl (mkTypeError ''Cannot read property 'bot_token' of undefined'')
         \<and> slackClients (snd (getSlack E teamId s)) = slackClients s
         \<and> creations k (trace (snd (getSlack E teamId s))) = creations k (trace s)
         \<and> calls_of (trace (snd (getSlack E teamId s))) = calls_of (trace s)"
  using assms by (simp add: getSlack_def getTeamInfo_def Let_def)

theorem getSlack_unknown_team_witness:
  "cached constructor (show_js (Some ''T404'')) = None
   \<and> (\<forall>tr. teams_table env0 tr (Some ''T404'') = [])
   \<and> fst (getSlack env0 (Some ''T404'') constructor)
       = Inl (mkTypeError ''Cannot read property 'bot_token' of undefined'')
   \<and> slackClients (snd (getSlack env0 (Some ''T404'') constructor)) = slackClients constructor
   \<and> creations ''T404'' (trace (snd (getSlack env0 (Some ''T404'') constructor))) = []
   \<and> calls_of (trace (snd (getSlack env0 (Some ''T404'') constructor))) = []"
proof -
  have a: "cached constructor (show_js (Some ''T404'')) = None"
    by (simp add: constructor_def cached_def Object_prototype_def show_js_def)
  have b: "\<forall>tr. teams_table env0 tr (Some ''T404'') = []"
    by (simp add: env0_def)
  show ?thesis
    using a b getSlack_unknown_team [OF a b, of "''T404''"]
    by (simp add: constructor_def)
qed

text \<open>
  Claim C10. When the credentials of a workspace were fetched on a cache miss and
  \<open>connect\<close> then fails, the error reaches the caller, but the object that never
  connected (its \<open>autoStart\<close> still undefined) is already in the cache; every later call
  for the same workspace, whatever the collaborators would answer by then, returns that
  object and changes nothing: no query, no second \<open>connect\<close>.
\<close>

theorem getSlack_connect_failure_cached:
  assumes "cached s (show_js teamId) = None"
    and "getTeamInfo E teamId s = (Inr (bt, at, bid, as), s1)"
    and "client = \<lparr>botToken = bt, appToken = at, botId = bid, autoStart = None\<rparr>"
    and "platform E (trace s1 @ [NewSlack (show_js teamId) client]) client Connect = Inl e"
  shows "fst (getSlack E teamId s) = Inl e
         \<and> slackClients (snd (getSlack E teamId s)) (show_js teamId) = Some client
         \<and> getSlack E' teamId (snd (getSlack E teamId s))
             = (Inr (Client client), snd (getSlack E teamId s))
         \<and> getSlack_calls (map (\<lambda>E. (E, teamId)) Es) (snd (getSlack E teamId s))
             = snd (getSlack E teamId s)"
proof -
  have 1: "fst (getSlack E teamId s) = Inl e"
    and 2: "slackClients (snd (getSlack E teamId s)) (show_js teamId) = Some client"
    using assms by (simp_all add: getSlack_def invoke_Client Let_def)
  note 3 = cached_own [OF 2]
  from 2 show ?thesis
    using 1 getSlack_hit [OF 3] getSlack_calls_same_team [OF 3] by simp
qed

theorem getSlack_connect_failure_cached_witness:
  "cached constructor (show_js (Some ''T1'')) = None
   \<and> fst (getSlack env_connect_fails (Some ''T1'') constructor) = Inl (mkError ''connect ECONNREFUSED'')
   \<and> slackClients (snd (getSlack env_connect_fails (Some ''T1'') constructor)) ''T1'' = Some client_T1
   \<and> fst (getSlack env0 (Some ''T1'') (snd (getSlack env_connect_fails (Some ''T1'') constructor)))
       = Inr (Client client_T1)
   \<and> calls_of (trace (getSlack_calls [(env0, Some ''T1''), (env0, Some ''T1'')]
                        (snd (getSlack env_connect_fails (Some ''T1'') constructor))))
       = [(client_T1, Connect)]"
proof -
  have a: "cached constructor (show_js (Some ''T1'')) = None"
    by (simp add: constructor_def cached_def Object_prototype_def show_js_def)
  have b: "getTeamInfo env_connect_fails (Some ''T1'') constructor
           = (Inr (''xoxb-1'', ''xoxp-1'', ''B1'', True),
              emit (TeamQuery (Some ''T1''))
                (emit (Log Info (''Loading team '' @ squote (show_js (Some ''T1'')) @ ''.'')) constructor))"
    by (simp add: getTeamInfo_def Let_def env_connect_fails_def env0_def team_T1_def)
  have c: "client_T1 = \<lparr>botToken = ''xoxb-1'', appToken = ''xoxp-1'', botId = ''B1'', autoStart = None\<rparr>"
    by (simp add: client_T1_def)
  have d: "platform env_connect_fails
             (trace (emit (TeamQuery (Some ''T1''))
                (emit (Log Info (''Loading team '' @ squote (show_js (Some ''T1'')) @ ''.'')) constructor))
              @ [NewSlack (show_js (Some ''T1'')) client_T1]) client_T1 Connect
           = Inl (mkError ''connect ECONNREFUSED'')"
    by (simp add: env_connect_fails_def)
  note t = getSlack_connect_failure_cached [OF a b c d, of env0 "[env0, env0]"]
  have e: "calls_of (trace (snd (getSlack env_connect_fails (Some ''T1'') constructor)))
           = [(client_T1, Connect)]"
    by (simp add: getSlack_def getTeamInfo_def invoke_def Let_def env_connect_fails_def env0_def
          team_T1_def client_T1_def constructor_def show_js_def cached_def Object_prototype_def)
  show ?thesis using a t e by (simp add: show_js_def)
qed

section \<open>The outbound relay\<close>

lemma hit_T1:
  "getSlack E (Some ''T1'') (announce d state_T1_cached)
   = (Inr (Client (client_T1\<lparr>autoStart := Some True\<rparr>)), announce d state_T1_cached)"
  by (rule getSlack_hit) (simp add: state_T1_cached_def show_js_def cached_def announce_def emit_def)

lemma state_T1_cached_fields [simp]:
  "trace state_T1_cached = []" "timers state_T1_cached = []" "ackDelay state_T1_cached = 0"
  by (simp_all add: state_T1_cached_def constructor_def)

lemma constructor_fields [simp]:
  "trace constructor = []" "timers constructor = []" "ackDelay constructor = 0"
  "slackClients constructor = Map.empty"
  by (simp_all add: constructor_def)

text \<open>
  Claim C1. An envelope whose \<open>team\<close> is undefined makes \<open>processQueueMessage\<close> throw
  \<open>No team id defined.\<close>; \<open>onConsume\<close> logs the error and hands it to \<open>reportError\<close>
  with the envelope, no platform call is made and no session is looked up, and the
  acknowledgment is scheduled and, when its timer fires, sent.
\<close>

theorem missing_team_is_reported_and_acked:
  assumes "parsed_content message = Inr d" and "m_team d = None"
  shows "fst (onConsume E message s) = None
         \<and> logs Error (trace (snd (onConsume E message s)))
             = logs Error (trace s) @ [''No team id defined.'', ''No team id defined.'']
         \<and> reports (trace (snd (onConsume E message s)))
             = reports (trace s)
               @ (if Some ''dev'' = env_MODE E then [Log Info ''Reporting error...'']
                  else [CaptureException (mkError ''No team id defined.'') (Some d)])
         \<and> calls_of (trace (snd (onConsume E message s))) = calls_of (trace s)
         \<and> slackClients (snd (onConsume E message s)) = slackClients s
         \<and> timers (snd (onConsume E message s)) = timers s @ [(message, ackDelay s)]
         \<and> acks (trace (fire_timer (length (timers s)) (snd (onConsume E message s))))
             = acks (trace s) @ [message]"
proof -
  have p: "processQueueMessage E d (announce d s)
           = (Inl (mkError ''No team id defined.''),
              emit (Log Error ''No team id defined.'') (announce d s))"
    using assms(2) by (simp add: processQueueMessage_def)
  have c: "onConsume E message s
           = (None, setTimeout_ack message
                      (reportError E (mkError ''No team id defined.'') (Some d)
                         (emit (Log Error ''No team id defined.'')
                            (emit (Log Error ''No team id defined.'') (announce d s)))))"
    by (simp add: onConsume_def Let_def assms(1) p ERROR_NOT_IN_CHANNEL_def mkError_def)
  show ?thesis
    using onConsume_acknowledges [of E message s]
    by (simp add: c reportError_def)
qed

theorem missing_team_is_reported_and_acked_witness:
  "parsed_content (delivery 7 say_no_team) = Inr say_no_team \<and> m_team say_no_team = None
   \<and> fst (onConsume env0 (delivery 7 say_no_team) constructor) = None
   \<and> logs Error (trace (snd (onConsume env0 (delivery 7 say_no_team) constructor)))
       = [''No team id defined.'', ''No team id defined.'']
   \<and> reports (trace (snd (onConsume env0 (delivery 7 say_no_team) constructor)))
       = [CaptureException (mkError ''No team id defined.'') (Some say_no_team)]
   \<and> calls_of (trace (snd (onConsume env0 (delivery 7 say_no_team) constructor))) = []
   \<and> acks (trace (fire_timer 0 (snd (onConsume env0 (delivery 7 say_no_team) constructor))))
       = [delivery 7 say_no_team]"
proof -
  have a: "parsed_content (delivery 7 say_no_team) = Inr say_no_team"
    by (simp add: delivery_def)
  have b: "m_team say_no_team = None"
    by (simp add: say_no_team_def envelope0_def)
  show ?thesis
    using a b missing_team_is_reported_and_acked [OF a b, of env0 constructor]
    by (simp add: env0_def)
qed

text \<open>
  Claim C2. For an envelope of type \<open>say\<close> with a \<open>team\<close>, when the session is obtained
  and \<open>postMessage\<close> resolves, processing the message writes exactly one envelope to the
  in-queue: type \<open>add_timestamp\<close>, with the \<open>ts\<close> of the response, the envelope's
  \<open>channel\<close>, and its \<open>team\<close> as \<open>teamid\<close>.
\<close>

theorem say_enqueues_one_timestamp:
  assumes "parsed_content message = Inr d"
    and "m_type d = Some ''say''" and "m_team d \<noteq> None"
    and "getSlack E (m_team d) (announce d s) = (Inr (Client slack), s1)"
    and "platform E (trace s1) slack (PostMessage (m_channel d) (m_text d) (m_opts d)) = Inr response"
  shows "fst (onConsume E message s) = None
         \<and> enqueued (trace (snd (onConsume E message s)))
             = enqueued (trace s)
               @ [(inQueueName E,
                   \<lparr>in_type = ''add_timestamp'',
                    in_payload = TimestampPayload (r_ts response) (m_channel d) (m_team d)\<rparr>)]"
proof -
  have op: "operation_of d = Some (PostMessage (m_channel d) (m_text d) (m_opts d))"
    using assms(2) by (simp add: operation_of_def)
  note p = processQueueMessage_dispatched [OF assms(3) op assms(4)]
  have e1: "enqueued (trace s1) = enqueued (trace s)"
    using getSlack_frame(5) [OF assms(4)] by simp
  show ?thesis
    by (simp add: onConsume_def Let_def assms(1,2,5) p e1)
qed

theorem say_enqueues_one_timestamp_witness:
  "parsed_content (delivery 1 say_C1) = Inr say_C1
   \<and> m_type say_C1 = Some ''say'' \<and> m_team say_C1 \<noteq> None
   \<and> fst (onConsume env_post_ts (delivery 1 say_C1) state_T1_cached) = None
   \<and> enqueued (trace (snd (onConsume env_post_ts (delivery 1 say_C1) state_T1_cached)))
       = [(''in_queue-test'',
           \<lparr>in_type = ''add_timestamp'',
            in_payload = TimestampPayload (Some ''123.45'') (Some ''C1'') (Some ''T1'')\<rparr>)]"
proof -
  have a: "parsed_content (delivery 1 say_C1) = Inr say_C1"
    by (simp add: delivery_def)
  have b: "m_type say_C1 = Some ''say''" and c: "m_team say_C1 \<noteq> None"
    by (simp_all add: say_C1_def envelope0_def)
  have t: "m_team say_C1 = Some ''T1''"
    by (simp add: say_C1_def envelope0_def)
  have d: "getSlack env_post_ts (m_team say_C1) (announce say_C1 state_T1_cached)
           = (Inr (Client (client_T1\<lparr>autoStart := Some True\<rparr>)), announce say_C1 state_T1_cached)"
    unfolding t by (rule hit_T1)
  have e: "platform env_post_ts (trace (announce say_C1 state_T1_cached))
             (client_T1\<lparr>autoStart := Some True\<rparr>)
             (PostMessage (m_channel say_C1) (m_text say_C1) (m_opts say_C1))
           = Inr (ok_response\<lparr>r_ts := Some ''123.45''\<rparr>)"
    by (simp add: env_post_ts_def)
  show ?thesis
    using a b c say_enqueues_one_timestamp [OF a b c d e]
    by (simp add: inQueueName_def env_post_ts_def env0_def show_js_def say_C1_def envelope0_def)
qed


text \<open>
  Claim C4. Whatever the type of the envelope (\<open>dm\<close> included), when the dispatched
  platform call fails with an error whose structured data carries \<open>message_not_found\<close>,
  the relay logs a warning, reports nothing and logs no error, \<open>onConsume\<close> resolves, and
  the acknowledgment is scheduled and sent when its timer fires.
\<close>

theorem message_not_found_is_swallowed:
  assumes "parsed_content message = Inr d"
    and "m_team d \<noteq> None" and "operation_of d = Some op"
    and "getSlack E (m_team d) (announce d s) = (Inr (Client slack), s1)"
    and "platform E (trace s1) slack op = Inl e"
    and "err_data_error e = Some ERROR_MESSAGE_NOT_FOUND"
  shows "fst (onConsume E message s) = None
         \<and> logs Warn (trace (snd (onConsume E message s)))
             = logs Warn (trace s) @ [''Attempting to delete invalid timestamp.'']
         \<and> reports (trace (snd (onConsume E message s))) = reports (trace s)
         \<and> logs Error (trace (snd (onConsume E message s))) = logs Error (trace s)
         \<and> timers (snd (onConsume E message s)) = timers s @ [(message, ackDelay s)]
         \<and> acks (trace (fire_timer (length (timers s)) (snd (onConsume E message s))))
             = acks (trace s) @ [message]"
proof -
  note p = processQueueMessage_dispatched [OF assms(2,3,4)]
  have t: "ERROR_MESSAGE_NOT_FOUND = error_type e"
    using assms(6) by (simp add: error_type_def)
  note f = getSlack_frame [OF assms(4)]
  show ?thesis
    using onConsume_acknowledges [of E message s]
    by (simp add: onConsume_def Let_def assms(1,5) p t f)
qed

theorem message_not_found_is_swallowed_witness:
  "parsed_content (delivery 2 dm_U1) = Inr dm_U1 \<and> m_team dm_U1 \<noteq> None
   \<and> operation_of dm_U1 = Some (Dm (Some ''U1'') (Some ''hi'') None)
   \<and> err_data_error stale_error = Some ERROR_MESSAGE_NOT_FOUND
   \<and> fst (onConsume env_dm_stale (delivery 2 dm_U1) state_T1_cached) = None
   \<and> logs Warn (trace (snd (onConsume env_dm_stale (delivery 2 dm_U1) state_T1_cached)))
       = [''Attempting to delete invalid timestamp.'']
   \<and> reports (trace (snd (onConsume env_dm_stale (delivery 2 dm_U1) state_T1_cached))) = []
   \<and> acks (trace (fire_timer 0 (snd (onConsume env_dm_stale (delivery 2 dm_U1) state_T1_cached))))
       = [delivery 2 dm_U1]"
proof -
  have a: "parsed_content (delivery 2 dm_U1) = Inr dm_U1"
    by (simp add: delivery_def)
  have b: "m_team dm_U1 \<noteq> None" and t: "m_team dm_U1 = Some ''T1''"
    by (simp_all add: dm_U1_def envelope0_def)
  have c: "operation_of dm_U1 = Some (Dm (Some ''U1'') (Some ''hi'') None)"
    by (simp add: operation_of_def dm_U1_def envelope0_def)
  have d: "getSlack env_dm_stale (m_team dm_U1) (announce dm_U1 state_T1_cached)
           = (Inr (Client (client_T1\<lparr>autoStart := Some True\<rparr>)), announce dm_U1 state_T1_cached)"
    unfolding t by (rule hit_T1)
  have e: "platform env_dm_stale (trace (announce dm_U1 state_T1_cached))
             (client_T1\<lparr>autoStart := Some True\<rparr>) (Dm (Some ''U1'') (Some ''hi'') None)
           = Inl stale_error"
    by (simp add: env_dm_stale_def)
  have f: "err_data_error stale_error = Some ERROR_MESSAGE_NOT_FOUND"
    by (simp add: stale_error_def ERROR_MESSAGE_NOT_FOUND_def)
  show ?thesis
    using a b c f message_not_found_is_swallowed [OF a b c d e f]
    by simp
qed

text \<open>
  Claim C3. When the dispatched platform call fails with the error code
  \<open>channel_not_found\<close>, one direct message goes to the envelope's \<open>uid\<close>, nothing is
  reported, no error propagates, and the message is acknowledged. The code misses this
  on two inputs. First, the direct message is awaited inside the \<open>catch\<close> block with
  nothing around it: for an envelope of type \<open>dm\<close> on a platform that refuses direct
  messages with \<open>channel_not_found\<close>, the second refusal leaves \<open>onConsume\<close> as a
  rejection, after two direct-message calls. Second, \<open>onConsume\<close> compares the code with
  \<open>error.message\<close>, while \<open>processQueueMessage\<close> reads it from \<open>error.data.error\<close>: an
  error that carries \<open>channel_not_found\<close> in its structured data and a sentence as its
  message gets no direct message and is reported.
\<close>

theorem not_in_channel_failures:
  "operation_of dm_U1 = Some (Dm (Some ''U1'') (Some ''hi'') None)
   \<and> platform env_dm_not_in_channel (trace (announce dm_U1 state_T1_cached))
        (client_T1\<lparr>autoStart := Some True\<rparr>) (Dm (Some ''U1'') (Some ''hi'') None)
       = Inl not_in_channel_error
   \<and> err_message not_in_channel_error = ERROR_NOT_IN_CHANNEL
   \<and> err_data_error not_in_channel_error = Some ERROR_NOT_IN_CHANNEL
   \<and> fst (onConsume env_dm_not_in_channel (delivery 3 dm_U1) state_T1_cached)
       = Some not_in_channel_error
   \<and> calls_of (trace (snd (onConsume env_dm_not_in_channel (delivery 3 dm_U1) state_T1_cached)))
       = [(client_T1\<lparr>autoStart := Some True\<rparr>, Dm (Some ''U1'') (Some ''hi'') None),
          (client_T1\<lparr>autoStart := Some True\<rparr>, Dm (Some ''U1'') (Some INVITE_BEFORE_ACTIONS) None)]
   \<and> operation_of say_C1 = Some (PostMessage (Some ''C1'') (Some ''hi'') None)
   \<and> platform env_post_coded (trace (announce say_C1 state_T1_cached))
        (client_T1\<lparr>autoStart := Some True\<rparr>) (PostMessage (Some ''C1'') (Some ''hi'') None)
       = Inl coded_not_in_channel_error
   \<and> err_data_error coded_not_in_channel_error = Some ERROR_NOT_IN_CHANNEL
   \<and> fst (onConsume env_post_coded (delivery 4 say_C1) state_T1_cached) = None
   \<and> calls_of (trace (snd (onConsume env_post_coded (delivery 4 say_C1) state_T1_cached)))
       = [(client_T1\<lparr>autoStart := Some True\<rparr>, PostMessage (Some ''C1'') (Some ''hi'') None)]
   \<and> reports (trace (snd (onConsume env_post_coded (delivery 4 say_C1) state_T1_cached)))
       = [CaptureException coded_not_in_channel_error (Some say_C1)]"
proof -
  have t1: "m_team dm_U1 = Some ''T1''" and n1: "m_team dm_U1 \<noteq> None"
    and u1: "m_uid dm_U1 = Some ''U1''"
    and o1: "operation_of dm_U1 = Some (Dm (Some ''U1'') (Some ''hi'') None)"
    by (simp_all add: dm_U1_def envelope0_def operation_of_def)
  have t2: "m_team say_C1 = Some ''T1''" and n2: "m_team say_C1 \<noteq> None"
    and o2: "operation_of say_C1 = Some (PostMessage (Some ''C1'') (Some ''hi'') None)"
    and y2: "Some ''say'' = m_type say_C1"
    by (simp_all add: say_C1_def envelope0_def operation_of_def)
  have g1: "getSlack env_dm_not_in_channel (m_team dm_U1) (announce dm_U1 state_T1_cached)
            = (Inr (Client (client_T1\<lparr>autoStart := Some True\<rparr>)), announce dm_U1 state_T1_cached)"
    unfolding t1 by (rule hit_T1)
  have g2: "getSlack env_post_coded (m_team say_C1) (announce say_C1 state_T1_cached)
            = (Inr (Client (client_T1\<lparr>autoStart := Some True\<rparr>)), announce say_C1 state_T1_cached)"
    unfolding t2 by (rule hit_T1)
  have p1: "platform env_dm_not_in_channel tr c (Dm a b x) = Inl not_in_channel_error" for tr c a b x
    by (simp add: env_dm_not_in_channel_def)
  have p2: "platform env_post_coded tr c (PostMessage a b x) = Inl coded_not_in_channel_error"
    for tr c a b x
    by (simp add: env_post_coded_def)
  have e1: "err_message not_in_channel_error = ERROR_NOT_IN_CHANNEL"
    "err_data_error not_in_channel_error = Some ERROR_NOT_IN_CHANNEL"
    "ERROR_MESSAGE_NOT_FOUND \<noteq> error_type not_in_channel_error"
    by (simp_all add: not_in_channel_error_def ERROR_NOT_IN_CHANNEL_def error_type_def
          ERROR_MESSAGE_NOT_FOUND_def)
  have e2: "ERROR_NOT_IN_CHANNEL \<noteq> err_message coded_not_in_channel_error"
    "err_data_error coded_not_in_channel_error = Some ERROR_NOT_IN_CHANNEL"
    "ERROR_MESSAGE_NOT_FOUND \<noteq> error_type coded_not_in_channel_error"
    by (simp_all add: coded_not_in_channel_error_def ERROR_NOT_IN_CHANNEL_def error_type_def
          ERROR_MESSAGE_NOT_FOUND_def)
  have hit: "getSlack env_dm_not_in_channel (Some ''T1'') (emit ev (announce dm_U1 state_T1_cached))
             = (Inr (Client (client_T1\<lparr>autoStart := Some True\<rparr>)),
                emit ev (announce dm_U1 state_T1_cached))" for ev
    using getSlack_cached_after [OF g1] by (simp add: getSlack_hit t1)
  have mode: "Some ''dev'' \<noteq> env_MODE env_post_coded"
    by (simp add: env_post_coded_def env0_def)
  have r1: "onConsume env_dm_not_in_channel (delivery 3 dm_U1) state_T1_cached
            = (Some not_in_channel_error,
               setTimeout_ack (delivery 3 dm_U1)
                 (emit (Call (client_T1\<lparr>autoStart := Some True\<rparr>)
                          (Dm (Some ''U1'') (Some INVITE_BEFORE_ACTIONS) None)
                          (Inl not_in_channel_error))
                    (emit (Call (client_T1\<lparr>autoStart := Some True\<rparr>)
                             (Dm (Some ''U1'') (Some ''hi'') None) (Inl not_in_channel_error))
                       (announce dm_U1 state_T1_cached))))"
    by (simp add: onConsume_def Let_def delivery_def
          processQueueMessage_dispatched [OF n1 o1 g1] p1 e1 t1 u1 hit invoke_Client)
  have r2: "onConsume env_post_coded (delivery 4 say_C1) state_T1_cached
            = (None,
               setTimeout_ack (delivery 4 say_C1)
                 (reportError env_post_coded coded_not_in_channel_error (Some say_C1)
                    (emit (Log Error (err_message coded_not_in_channel_error))
                       (emit (Call (client_T1\<lparr>autoStart := Some True\<rparr>)
                                (PostMessage (Some ''C1'') (Some ''hi'') None)
                                (Inl coded_not_in_channel_error))
                          (announce say_C1 state_T1_cached)))))"
    by (simp add: onConsume_def Let_def delivery_def
          processQueueMessage_dispatched [OF n2 o2 g2] p2 e2)
  show ?thesis
    by (simp add: o1 o2 p1 p2 e1 e2 r1 r2 reportError_def mode)
qed

section \<open>The inbound relay\<close>

lemma getSlack_enqueued_eq:
  "getSlack E t s = (r, s1) \<Longrightarrow> enqueued (trace s1) = enqueued (trace s)"
  by (simp add: getSlack_frame)

lemma invoke_enqueued_eq:
  "invoke E v p s = (r, s1) \<Longrightarrow> enqueued (trace s1) = enqueued (trace s)"
  using invoke_quiet(3) [of E v p s] by simp

lemma onChatAndSlash_public:
  assumes "b_channel_name body \<noteq> Some CHANNEL_PRIVATEGROUP"
  shows "enqueued (trace (snd (onChatAndSlash E body s))) = enqueued (trace s)"
    and "getSlack E (b_team_id body) s = (Inr (Client slack), s1) \<Longrightarrow>
         calls_of (trace (snd (onChatAndSlash E body s)))
         = calls_of (trace s1) @ [(slack, Dm (b_user_id body) (Some PUBLIC_CHANNEL_TEXT) None)]"
proof -
  show "enqueued (trace (snd (onChatAndSlash E body s))) = enqueued (trace s)"
    using assms
    by (auto simp: onChatAndSlash_def split: prod.splits sum.splits
             dest!: getSlack_enqueued_eq invoke_enqueued_eq)
  show "getSlack E (b_team_id body) s = (Inr (Client slack), s1) \<Longrightarrow>
         calls_of (trace (snd (onChatAndSlash E body s)))
         = calls_of (trace s1) @ [(slack, Dm (b_user_id body) (Some PUBLIC_CHANNEL_TEXT) None)]"
    using assms
    by (auto simp: onChatAndSlash_def invoke_Client split: sum.splits)
qed

text \<open>
  Claim C8, as stated: a game-start command from a channel that is not a private group is
  answered with a direct message and never enqueues \<open>new-game\<close>. \<open>onSlash\<close> returns
  right after the empty HTTP response when the channel id does not begin with \<open>G\<close>, so
  a command typed in a public channel gets no direct message at all.
\<close>

theorem public_channel_counterexample:
  "b_command slash_general = Some COMMAND_CHATANDSLASH
   \<and> b_channel_name slash_general \<noteq> Some CHANNEL_PRIVATEGROUP
   \<and> onSlash env0 slash_general state_T1_cached = (None, emit (ResSend []) state_T1_cached)
   \<and> calls_of (trace (snd (onSlash env0 slash_general state_T1_cached))) = []"
  by (simp add: slash_general_def COMMAND_CHATANDSLASH_def CHANNEL_PRIVATEGROUP_def
        onSlash_def Let_def)

text \<open>
  Claim C8, amended: a game-start command whose \<open>channel_name\<close> is not
  \<open>privategroup\<close> never writes anything to a queue, so no \<open>new-game\<close> envelope. When
  the channel id does not begin with \<open>G\<close> the command is dropped after the empty HTTP
  response, with no direct message. When it begins with \<open>G\<close> and the session of the
  workspace is obtained, exactly one platform call follows: the direct message to the
  user that public channels are not allowed.
\<close>

theorem game_start_outside_private_group:
  assumes "b_command body = Some COMMAND_CHATANDSLASH"
    and "b_channel_name body \<noteq> Some CHANNEL_PRIVATEGROUP"
  shows "enqueued (trace (snd (onSlash E body s))) = enqueued (trace s)
         \<and> (\<forall>cid. b_channel_id body = Some cid \<and> take 1 cid \<noteq> ''G'' \<longrightarrow>
                onSlash E body s = (None, emit (ResSend []) s))
         \<and> (\<forall>cid slack s1.
                b_channel_id body = Some cid \<and> take 1 cid = ''G''
                \<and> getSlack E (b_team_id body) (emit (ResSend []) s) = (Inr (Client slack), s1) \<longrightarrow>
                calls_of (trace (snd (onSlash E body s)))
                = calls_of (trace s1) @ [(slack, Dm (b_user_id body) (Some PUBLIC_CHANNEL_TEXT) None)])"
proof (intro conjI allI impI)
  show "enqueued (trace (snd (onSlash E body s))) = enqueued (trace s)"
    using assms onChatAndSlash_public(1) [OF assms(2), of E "emit (ResSend []) s"]
    by (auto simp: onSlash_def Let_def split: option.splits)
next
  fix cid
  assume "b_channel_id body = Some cid \<and> take 1 cid \<noteq> ''G''"
  then show "onSlash E body s = (None, emit (ResSend []) s)"
    by (auto simp: onSlash_def Let_def)
next
  fix cid slack s1
  assume h: "b_channel_id body = Some cid \<and> take 1 cid = ''G''
             \<and> getSlack E (b_team_id body) (emit (ResSend []) s) = (Inr (Client slack), s1)"
  then have g: "getSlack E (b_team_id body) (emit (ResSend []) s) = (Inr (Client slack), s1)"
    by simp
  show "calls_of (trace (snd (onSlash E body s)))
        = calls_of (trace s1) @ [(slack, Dm (b_user_id body) (Some PUBLIC_CHANNEL_TEXT) None)]"
    using h assms(1) onChatAndSlash_public(2) [OF assms(2) g]
    by (simp add: onSlash_def Let_def)
qed

theorem game_start_outside_private_group_witness:
  "b_command slash_mpdm = Some COMMAND_CHATANDSLASH
   \<and> b_channel_name slash_mpdm \<noteq> Some CHANNEL_PRIVATEGROUP
   \<and> enqueued (trace (snd (onSlash env0 slash_mpdm state_T1_cached))) = []
   \<and> calls_of (trace (snd (onSlash env0 slash_mpdm state_T1_cached)))
       = [(client_T1\<lparr>autoStart := Some True\<rparr>, Dm (Some ''U1'') (Some PUBLIC_CHANNEL_TEXT) None)]
   \<and> onSlash env0 (slash_mpdm\<lparr>b_channel_id := Some ''D024BE91L''\<rparr>) state_T1_cached
       = (None, emit (ResSend []) state_T1_cached)"
proof -
  have a: "b_command slash_mpdm = Some COMMAND_CHATANDSLASH"
    and a': "b_command (slash_mpdm\<lparr>b_channel_id := Some ''D024BE91L''\<rparr>) = Some COMMAND_CHATANDSLASH"
    by (simp_all add: slash_mpdm_def COMMAND_CHATANDSLASH_def)
  have b: "b_channel_name slash_mpdm \<noteq> Some CHANNEL_PRIVATEGROUP"
    and b': "b_channel_name (slash_mpdm\<lparr>b_channel_id := Some ''D024BE91L''\<rparr>) \<noteq> Some CHANNEL_PRIVATEGROUP"
    by (simp_all add: slash_mpdm_def CHANNEL_PRIVATEGROUP_def)
  have g: "getSlack env0 (b_team_id slash_mpdm) (emit (ResSend []) state_T1_cached)
           = (Inr (Client (client_T1\<lparr>autoStart := Some True\<rparr>)),
              emit (ResSend []) state_T1_cached)"
    by (rule getSlack_hit) (simp add: slash_mpdm_def state_T1_cached_def show_js_def cached_def)
  have c: "b_channel_id slash_mpdm = Some ''G024BE91L''" "b_user_id slash_mpdm = Some ''U1''"
    by (simp_all add: slash_mpdm_def)
  show ?thesis
    using a b g c
      game_start_outside_private_group [OF a b, of env0 state_T1_cached]
      game_start_outside_private_group [OF a' b', of env0 state_T1_cached]
    by simp
qed

subsection \<open>Channel provisioning\<close>















lemma byte_hex [simp]:
  "hex_byte 2 = ''02''" "hex_byte 3 = ''03''" "hex_byte 4 = ''04''"
  "hex_byte 5 = ''05''" "hex_byte 6 = ''06''" "hex_byte 7 = ''07''"
  by (simp_all add: hex_byte_def hexdigit_def)



end
